theory Spec2Isabelle
  imports Complex_Main "HOL-Library.Sublist"
begin

section \<open>Python strings and dictionaries\<close>

text \<open>
  A Python \<^verbatim>\<open>str\<close> is a sequence of Unicode code points, so it is modelled as a list of
  natural numbers. Dictionary keys of the program are ASCII identifiers and are kept as
  HOL strings; a \<^verbatim>\<open>Dict\<close> with string values is a map from keys to Python strings.
\<close>

type_synonym pystr = "nat list"

type_synonym pydict = "string \<rightharpoonup> pystr"

text \<open>An ASCII literal of the source, read as a list of code points.\<close>

definition u :: "string \<Rightarrow> pystr" where
  "u s = map of_char s"

text \<open>
  An exception is its class name and its message (\<^verbatim>\<open>str(e)\<close>).
\<close>

datatype pyexn = Exn (exn_type: string) (exn_msg: pystr)

text \<open>
  \<^verbatim>\<open>str.upper()\<close> and \<^verbatim>\<open>str.lower()\<close> follow the Unicode case tables of the Python
  runtime, which are no part of the repository: every function that upper- or lower-cases
  takes the mapping as its first argument, and the general theorems hold for every
  mapping. The two functions below agree with Python on ASCII text and are the instances
  used on concrete ASCII inputs.
\<close>

definition upper_ascii :: "pystr \<Rightarrow> pystr" where
  "upper_ascii s = map (\<lambda>c. if 97 \<le> c \<and> c \<le> 122 then c - 32 else c) s"

definition lower_ascii :: "pystr \<Rightarrow> pystr" where
  "lower_ascii s = map (\<lambda>c. if 65 \<le> c \<and> c \<le> 90 then c + 32 else c) s"

text \<open>
  The code points that \<^verbatim>\<open>str.strip()\<close> and \<^verbatim>\<open>str.split()\<close> treat as whitespace
  (\<^verbatim>\<open>Py_UNICODE_ISSPACE\<close>): U+0009..U+000D, U+001C..U+0020, U+0085, U+00A0, U+1680,
  U+2000..U+200A, U+2028, U+2029, U+202F, U+205F, U+3000.
\<close>

definition py_isspace :: "nat \<Rightarrow> bool" where
  "py_isspace c =
     ((9 \<le> c \<and> c \<le> 13) \<or> (28 \<le> c \<and> c \<le> 32) \<or> c = 133 \<or> c = 160 \<or> c = 5760 \<or>
      (8192 \<le> c \<and> c \<le> 8202) \<or> c = 8232 \<or> c = 8233 \<or> c = 8239 \<or> c = 8287 \<or> c = 12288)"

text \<open>\<^verbatim>\<open>s.strip()\<close>\<close>

definition py_strip :: "pystr \<Rightarrow> pystr" where
  "py_strip s = rev (dropWhile py_isspace (rev (dropWhile py_isspace s)))"

text \<open>\<^verbatim>\<open>sub in s\<close>\<close>

fun py_in :: "pystr \<Rightarrow> pystr \<Rightarrow> bool" where
  "py_in sub [] = (sub = [])"
| "py_in sub (c # cs) = (prefix sub (c # cs) \<or> py_in sub cs)"

text \<open>\<^verbatim>\<open>s.startswith(p)\<close>\<close>

definition startswith :: "pystr \<Rightarrow> pystr \<Rightarrow> bool" where
  "startswith s p = prefix p s"

text \<open>\<^verbatim>\<open>s.split(sep)\<close> for a separator of one code point: empty pieces are kept.\<close>

fun split_on :: "nat \<Rightarrow> pystr \<Rightarrow> pystr list" where
  "split_on sep [] = [[]]"
| "split_on sep (c # cs) =
     (if c = sep then [] # split_on sep cs
      else (case split_on sep cs of
              [] \<Rightarrow> [[c]]
            | w # ws \<Rightarrow> (c # w) # ws))"

text \<open>\<^verbatim>\<open>s.split()\<close>: pieces between runs of whitespace, no empty piece.\<close>

fun split_ws :: "pystr \<Rightarrow> pystr \<Rightarrow> pystr list" where
  "split_ws w [] = (if w = [] then [] else [w])"
| "split_ws w (c # cs) =
     (if py_isspace c then (if w = [] then split_ws [] cs else w # split_ws [] cs)
      else split_ws (w @ [c]) cs)"

definition py_split :: "pystr \<Rightarrow> pystr list" where
  "py_split s = split_ws [] s"

text \<open>\<^verbatim>\<open>s.replace(old, '')\<close>: every occurrence of \<open>old\<close>, left to right, is removed.\<close>

function remove_all :: "pystr \<Rightarrow> pystr \<Rightarrow> pystr" where
  "remove_all old s =
     (if old = [] then s
      else (case s of
              [] \<Rightarrow> []
            | c # cs \<Rightarrow>
                if prefix old s then remove_all old (drop (length old) s)
                else c # remove_all old cs))"
  by pat_completeness auto
termination
  by (relation "measure (\<lambda>(old, s). length s)") auto

text \<open>\<^verbatim>\<open>sep.join(xs)\<close>\<close>

fun py_join :: "pystr \<Rightarrow> pystr list \<Rightarrow> pystr" where
  "py_join sep [] = []"
| "py_join sep [x] = x"
| "py_join sep (x # y # ys) = x @ sep @ py_join sep (y # ys)"

text \<open>\<^verbatim>\<open>d.get(k, default)\<close>\<close>

definition dict_get :: "pydict \<Rightarrow> string \<Rightarrow> pystr \<Rightarrow> pystr" where
  "dict_get d k dflt = (case d k of None \<Rightarrow> dflt | Some v \<Rightarrow> v)"

section \<open>The response parser\<close>

text \<open>
  \<^verbatim>\<open>_parse_analysis_response\<close>. The three heading tests are the three conditions of the
  \<^verbatim>\<open>if\<close>/\<^verbatim>\<open>elif\<close> chain, each applied to \<^verbatim>\<open>line.upper()\<close>; \<open>205\<close> and \<open>194\<close> are
  the code points of the accented capitals I and A of the third heading.
\<close>

definition nivel_acento :: pystr where
  "nivel_acento = u ''N'' @ [205] @ u ''VEL DE RELEV'' @ [194] @ u ''NCIA''"

definition is_resumo_heading :: "pystr \<Rightarrow> bool" where
  "is_resumo_heading L =
     (py_in (u ''## RESUMO EXECUTIVO'') L \<or>
      py_in (u ''**RESUMO EXECUTIVO**'') L \<or>
      py_in (u ''RESUMO EXECUTIVO'') L)"

definition is_pontos_heading :: "pystr \<Rightarrow> bool" where
  "is_pontos_heading L =
     (py_in (u ''## PONTOS-CHAVE'') L \<or> py_in (u ''## PONTOS CHAVE'') L \<or>
      py_in (u ''**PONTOS-CHAVE**'') L \<or> py_in (u ''**PONTOS CHAVE**'') L \<or>
      py_in (u ''PONTOS-CHAVE'') L \<or> py_in (u ''PONTOS CHAVE'') L)"

definition is_nivel_heading :: "pystr \<Rightarrow> bool" where
  "is_nivel_heading L =
     (py_in (u ''## '' @ nivel_acento) L \<or> py_in (u ''## NIVEL DE RELEVANCIA'') L \<or>
      py_in (u ''**'' @ nivel_acento @ u ''**'') L \<or> py_in (u ''**NIVEL DE RELEVANCIA**'') L \<or>
      py_in nivel_acento L \<or> py_in (u ''NIVEL DE RELEVANCIA'') L)"

text \<open>The marker list of the inner test of the last branch.\<close>

definition section_markers :: "pystr list" where
  "section_markers =
     [u ''RESUMO EXECUTIVO'', u ''PONTOS-CHAVE'', u ''PONTOS CHAVE'',
      nivel_acento, u ''NIVEL DE RELEVANCIA'']"

definition initial_sections :: pydict where
  "initial_sections =
     [''resumo_executivo'' \<mapsto> [], ''pontos_chave'' \<mapsto> [], ''nivel_relevancia'' \<mapsto> []]"

text \<open>
  One iteration of the line loop, on the cursor \<^verbatim>\<open>current_section\<close> and the dictionary
  \<^verbatim>\<open>sections\<close>. \<^verbatim>\<open>sections[current_section] += ...\<close> reads the entry first and raises
  \<^verbatim>\<open>KeyError\<close> when there is none.
\<close>

definition parse_line ::
  "(pystr \<Rightarrow> pystr) \<Rightarrow> string option \<Rightarrow> pydict \<Rightarrow> pystr \<Rightarrow> pyexn + (string option \<times> pydict)" where
  "parse_line upper current_section sections raw =
     (let line = py_strip raw in
      if is_resumo_heading (upper line) then Inr (Some ''resumo_executivo'', sections)
      else if is_pontos_heading (upper line) then Inr (Some ''pontos_chave'', sections)
      else if is_nivel_heading (upper line) then Inr (Some ''nivel_relevancia'', sections)
      else (case current_section of
              None \<Rightarrow> Inr (current_section, sections)
            | Some k \<Rightarrow>
                if line \<noteq> [] \<and> \<not> startswith line (u ''##'') \<and> \<not> startswith line (u ''**'') then
                  (if \<not> list_ex (\<lambda>marker. py_in marker (upper line)) section_markers then
                     (case sections k of
                        None \<Rightarrow> Inl (Exn ''KeyError'' (u k))
                      | Some acc \<Rightarrow> Inr (Some k, sections(k \<mapsto> acc @ line @ [10])))
                   else Inr (current_section, sections))
                else Inr (current_section, sections)))"

fun scan_lines ::
  "(pystr \<Rightarrow> pystr) \<Rightarrow> string option \<Rightarrow> pydict \<Rightarrow> pystr list \<Rightarrow> pyexn + pydict" where
  "scan_lines upper current_section sections [] = Inr sections"
| "scan_lines upper current_section sections (raw # rest) =
     (case parse_line upper current_section sections raw of
        Inl e \<Rightarrow> Inl e
      | Inr (current_section', sections') \<Rightarrow> scan_lines upper current_section' sections' rest)"

text \<open>The closing loop strips every value of the dictionary.\<close>

definition strip_sections :: "pydict \<Rightarrow> pydict" where
  "strip_sections sections = (\<lambda>key. map_option py_strip (sections key))"

definition parse_analysis_response :: "(pystr \<Rightarrow> pystr) \<Rightarrow> pystr \<Rightarrow> pyexn + pydict" where
  "parse_analysis_response upper analysis_text =
     (case scan_lines upper None initial_sections (split_on 10 analysis_text) of
        Inl e \<Rightarrow> Inl e
      | Inr sections \<Rightarrow> Inr (strip_sections sections))"

section \<open>The local analyzer\<close>

text \<open>\<^verbatim>\<open>_local_analysis\<close>: the three keyword lists, as written in the source.\<close>

definition high_relevance_keywords :: "pystr list" where
  "high_relevance_keywords =
     [u ''openai'',
      u ''chatgpt'',
      u ''claude'',
      u ''gemini'',
      u ''breakthrough'',
      u ''revolutionary'',
      u ''billion'',
      u ''funding'',
      u ''ipo'',
      u ''acquisition'']"

definition medium_relevance_keywords :: "pystr list" where
  "medium_relevance_keywords =
     [u ''ai'',
      u ''artificial intelligence'',
      u ''machine learning'',
      u ''deep learning'',
      u ''neural'',
      u ''algorithm'',
      u ''automation'',
      u ''robot'']"

definition low_relevance_keywords :: "pystr list" where
  "low_relevance_keywords =
     [u ''update'',
      u ''minor'',
      u ''patch'',
      u ''bug'',
      u ''fix'']"

text \<open>\<^verbatim>\<open>sum(1 for keyword in keywords if keyword in text_lower)\<close>\<close>

definition keyword_count :: "pystr list \<Rightarrow> pystr \<Rightarrow> nat" where
  "keyword_count keywords text_lower =
     sum_list (map (\<lambda>keyword. 1) (filter (\<lambda>keyword. py_in keyword text_lower) keywords))"

text \<open>The relevance level, from the counts of the first two lists.\<close>

definition relevancia_of :: "nat \<Rightarrow> nat \<Rightarrow> pystr" where
  "relevancia_of high_count medium_count =
     (if high_count \<ge> 2 then
        u ''Alto - Cont'' @ [233] @ u ''m m'' @ [250]
        @ u ''ltiplas palavras-chave de alta relev'' @ [226] @ u ''ncia''
      else if high_count \<ge> 1 \<or> medium_count \<ge> 3 then
        u ''M'' @ [233] @ u ''dio - Relev'' @ [226]
        @ u ''ncia moderada para o setor de IA''
      else if medium_count \<ge> 1 then
        u ''M'' @ [233] @ u ''dio - Relacionado '' @ [224] @ u '' intelig'' @ [234]
        @ u ''ncia artificial''
      else
        u ''Baixo - Relev'' @ [226] @ u ''ncia limitada para IA'')"

text \<open>
  The key points: one bullet for every trigger that fires, in the order of the tests, and
  the three generic bullets when none fires. \<open>8226\<close> is the bullet character.
\<close>

definition pontos_chave_of :: "pystr \<Rightarrow> pystr list" where
  "pontos_chave_of text_lower =
     (let pontos_chave =
        (if py_in (u ''openai'') text_lower \<or> py_in (u ''chatgpt'') text_lower
         then [[8226] @ u '' Desenvolvimento em OpenAI/ChatGPT''] else []) @
        (if py_in (u ''google'') text_lower \<or> py_in (u ''gemini'') text_lower
         then [[8226] @ u '' Inova'' @ [231, 227] @ u ''o do Google em IA''] else []) @
        (if py_in (u ''microsoft'') text_lower
         then [[8226] @ u '' Iniciativa da Microsoft''] else []) @
        (if py_in (u ''funding'') text_lower \<or> py_in (u ''investment'') text_lower
         then [[8226] @ u '' Movimenta'' @ [231, 227] @ u ''o de investimentos''] else []) @
        (if py_in (u ''enterprise'') text_lower \<or> py_in (u ''business'') text_lower
         then [[8226] @ u '' Aplica'' @ [231, 227] @ u ''o empresarial''] else []) @
        (if py_in (u ''developer'') text_lower \<or> py_in (u ''api'') text_lower
         then [[8226] @ u '' Ferramentas para desenvolvedores''] else [])
      in if pontos_chave = [] then
          [[8226] @ u '' Not'' @ [237] @ u ''cia relacionada '' @ [224] @ u '' intelig''
           @ [234] @ u ''ncia artificial'',
           [8226] @ u '' Potencial impacto no setor de tecnologia'',
           [8226] @ u '' Relevante para acompanhamento do mercado'']
         else pontos_chave)"

text \<open>The executive summary: the title, a clause chosen by the counts, the closing sentence.\<close>

definition resumo_of :: "pystr \<Rightarrow> nat \<Rightarrow> nat \<Rightarrow> pystr" where
  "resumo_of title high_count medium_count =
     (u ''An'' @ [225] @ u ''lise local da not'' @ [237] @ u ''cia: '' @ title @ u ''. '') @
     (if high_count > 0 then
        u ''Esta not'' @ [237]
        @ u ''cia apresenta desenvolvimentos significativos em IA com pote''
        @ u ''ncial impacto no mercado. ''
      else if medium_count > 0 then
        u ''Esta not'' @ [237] @ u ''cia aborda temas relevantes de intelig'' @ [234]
        @ u ''ncia artificial. ''
      else
        u ''Esta not'' @ [237] @ u ''cia tem conex'' @ [227]
        @ u ''o com tecnologia e pode ser de interesse. '') @
     (u ''Recomenda-se acompanhamento para avaliar oportunidades de ap'' @ u ''lica''
      @ [231, 227] @ u ''o em neg'' @ [243] @ u ''cios e desenvolvimento.'')"

definition resumo_nao_disponivel :: pystr where
  "resumo_nao_disponivel = u ''Resumo n'' @ [227] @ u ''o dispon'' @ [237] @ u ''vel''"

text \<open>
  The function itself. \<open>low_count\<close> is computed, as in the source, and used nowhere.
\<close>

definition local_analysis :: "(pystr \<Rightarrow> pystr) \<Rightarrow> pydict \<Rightarrow> pydict" where
  "local_analysis lower news_item =
     (let title = dict_get news_item ''title'' (u ''N/A'');
          content = dict_get news_item ''content'' (dict_get news_item ''summary'' []);
          text_lower = lower (title @ u '' '' @ content);
          high_count = keyword_count high_relevance_keywords text_lower;
          medium_count = keyword_count medium_relevance_keywords text_lower;
          low_count = keyword_count low_relevance_keywords text_lower;
          relevancia = relevancia_of high_count medium_count;
          pontos_chave = pontos_chave_of text_lower;
          resumo = resumo_of title high_count medium_count
      in [''resumo_executivo'' \<mapsto> resumo,
          ''pontos_chave'' \<mapsto> py_join [10] pontos_chave,
          ''nivel_relevancia'' \<mapsto> relevancia,
          ''titulo_traduzido'' \<mapsto> title,
          ''resumo_traduzido'' \<mapsto> dict_get news_item ''summary'' resumo_nao_disponivel,
          ''metodo_analise'' \<mapsto> u ''local''])"

section \<open>The analysis prompt\<close>

text \<open>
  \<^verbatim>\<open>_create_analysis_prompt\<close>: the template of the source is cut at its two
  placeholders into three fixed pieces.
\<close>

definition prompt_head :: pystr where
  "prompt_head =
     [10] @ u ''Analise a seguinte not'' @ [237] @ u ''cia sobre intelig'' @ [234]
     @ u ''ncia artificial e tecnologia:'' @ [10, 10] @ u ''**T'' @ [237]
     @ u ''tulo:** ''"

definition prompt_mid :: pystr where
  "prompt_mid = [10, 10] @ u ''**Conte'' @ [250] @ u ''do:** ''"

definition prompt_tail :: pystr where
  "prompt_tail =
     [10, 10] @ u ''Por favor, forne'' @ [231] @ u ''a uma an'' @ [225]
     @ u ''lise estruturada seguindo EXATAMENTE este formato (mantenha ''
     @ u ''os cabe'' @ [231] @ u ''alhos):'' @ [10, 10] @ u ''## RESUMO EXECUTIVO''
     @ [10] @ u ''[Resumo da not'' @ [237] @ u ''cia, em portugu'' @ [234]
     @ u ''s brasileiro]'' @ [10, 10] @ u ''## PONTOS-CHAVE'' @ [10]
     @ u ''[3-5 pontos principais desta not'' @ [237] @ u ''cia em formato de lista]''
     @ [10, 10] @ u ''## N'' @ [205] @ u ''VEL DE RELEV'' @ [194] @ u ''NCIA'' @ [10]
     @ u ''[Alto/M'' @ [233] @ u ''dio/Baixo] - [Justificativa em uma frase]''
     @ [10, 10] @ u ''IMPORTANTE: Responda sempre em portugu'' @ [234]
     @ u ''s brasileiro e mantenha exatamente os cabe'' @ [231]
     @ u ''alhos mostrados acima.'' @ [10]"

definition create_analysis_prompt :: "pydict \<Rightarrow> pystr" where
  "create_analysis_prompt news_item =
     (let title = dict_get news_item ''title'' (u ''N/A'');
          content = dict_get news_item ''content'' (dict_get news_item ''summary'' (u ''N/A''))
      in prompt_head @ title @ prompt_mid @ content @ prompt_tail)"

section \<open>The translation step\<close>

text \<open>\<^verbatim>\<open>_is_portuguese\<close>\<close>

definition portuguese_words :: "pystr list" where
  "portuguese_words =
     [u ''de'', u ''da'', u ''do'', u ''para'', u ''com'', u ''em'', u ''por'', u
      ''uma'', u ''um'', u ''que'', u ''n'' @ [227] @ u ''o'', u ''s'' @ [227] @ u
      ''o'', u ''como'', u ''mais'', u ''sobre'', u ''pela'', u ''pelo'']"

definition is_portuguese :: "(pystr \<Rightarrow> pystr) \<Rightarrow> pystr \<Rightarrow> bool" where
  "is_portuguese lower text =
     (let words = py_split (lower text);
          portuguese_count =
            sum_list (map (\<lambda>word. 1) (filter (\<lambda>word. word \<in> set portuguese_words) words))
      in portuguese_count \<ge> (2::nat) \<or> length words < 5)"

text \<open>\<^verbatim>\<open>translation_prompt\<close>: the f-string around the title and the summary.\<close>

definition translation_prompt :: "pystr \<Rightarrow> pystr \<Rightarrow> pystr" where
  "translation_prompt title summary =
     ([10] @ u ''Traduza para portugu'' @ [234] @ u ''s brasileiro:'' @ [10, 10]
      @ u ''T'' @ [205] @ u ''TULO: '') @ title @
     ([10] @ u ''RESUMO: '') @ summary @
     ([10, 10] @ u ''Responda apenas:'' @ [10] @ u ''T'' @ [205]
      @ u ''TULO_TRADUZIDO: [t'' @ [237] @ u ''tulo em portugu'' @ [234] @ u ''s]''
      @ [10] @ u ''RESUMO_TRADUZIDO: [resumo em portugu'' @ [234] @ u ''s]'' @ [10])"

definition translator_persona :: pystr where
  "translator_persona =
     u ''Voc'' @ [234] @ u '' '' @ [233] @ u '' um tradutor. Traduza para portugu''
     @ [234] @ u ''s brasileiro.''"

definition titulo_traduzido_label :: pystr where
  "titulo_traduzido_label = u ''T'' @ [205] @ u ''TULO_TRADUZIDO:''"

definition resumo_traduzido_label :: pystr where
  "resumo_traduzido_label = u ''RESUMO_TRADUZIDO:''"

text \<open>The loop over the lines of the translation; a later labelled line overwrites an earlier one.\<close>

fun scan_translation :: "pystr \<Rightarrow> pystr \<Rightarrow> pystr list \<Rightarrow> pystr \<times> pystr" where
  "scan_translation translated_title translated_summary [] =
     (translated_title, translated_summary)"
| "scan_translation translated_title translated_summary (line # rest) =
     (if startswith line titulo_traduzido_label then
        scan_translation (py_strip (remove_all titulo_traduzido_label line)) translated_summary rest
      else if startswith line resumo_traduzido_label then
        scan_translation translated_title (py_strip (remove_all resumo_traduzido_label line)) rest
      else scan_translation translated_title translated_summary rest)"

section \<open>Providers and the outside world\<close>

text \<open>
  An entry of \<^verbatim>\<open>self.providers\<close> and an entry of \<^verbatim>\<open>self.available_providers\<close>. The
  \<^verbatim>\<open>type\<close> of an available provider is one of two strings. A client stands for the
  \<^verbatim>\<open>OpenAI\<close> object, known by the key and the address it was built with; the field is
  \<open>None\<close> where the source stores \<^verbatim>\<open>None\<close>.
\<close>

datatype ptype = openai_compatible | huggingface

record provider_config =
  api_key :: "pystr option"
  base_url :: pystr
  model :: pystr
  free :: bool
  priority :: nat

datatype client = OpenAIClient pystr pystr

record provider =
  name :: pystr
  config :: provider_config
  client :: "client option"
  ptype :: ptype

text \<open>
  The two kinds of generation call and what they can answer.
  \<^verbatim>\<open>chat.completions.create\<close> raises, or yields the \<^verbatim>\<open>content\<close> of the first choice,
  which the library types as an optional string; any other malformed answer raises at
  the same place of the caller and counts as raising. \<^verbatim>\<open>requests.post\<close> raises, or
  yields a status and a body: no JSON, JSON that is no list, or a list of items that are
  dictionaries with an optional string \<^verbatim>\<open>generated_text\<close> or something else.
\<close>

record chat_request =
  via :: client
  chat_model :: pystr
  system_content :: pystr
  user_content :: pystr
  max_tokens :: nat
  temperature :: real

datatype chat_reply = ChatRaises pyexn | ChatContent "pystr option"

record hf_request =
  url :: pystr
  authorization :: pystr
  inputs :: pystr
  max_length :: nat
  timeout :: nat

datatype hf_item = HFNotDict | HFItem "pystr option"

datatype hf_body = HFNotJson | HFNotList | HFList "hf_item list"

datatype hf_reply = PostRaises pyexn | PostResponse nat hf_body

text \<open>
  What a run does to the outside is a list of events: \<open>Try i n\<close> is the start of the
  attempt with the \<open>i\<close>-th available provider, named \<open>n\<close> (the log line at the head of
  the loop body); \<open>Chat\<close> and \<open>Post\<close> are the generation calls. The world answers a
  call knowing all events before it.
\<close>

datatype event = Try nat pystr | Chat chat_request | Post hf_request

record world =
  chat_create :: "event list \<Rightarrow> chat_request \<Rightarrow> chat_reply"
  requests_post :: "event list \<Rightarrow> hf_request \<Rightarrow> hf_reply"

text \<open>
  \<^verbatim>\<open>_translate_news_item_simple\<close>. Everything after the language test runs inside
  \<^verbatim>\<open>try\<close>; the handler logs and falls through to \<^verbatim>\<open>return news_item\<close>. A content
  of \<open>None\<close> raises at \<^verbatim>\<open>.split\<close>, inside the same \<^verbatim>\<open>try\<close>.
\<close>

definition translate_news_item_simple ::
  "(pystr \<Rightarrow> pystr) \<Rightarrow> world \<Rightarrow> provider list \<Rightarrow> event list \<Rightarrow> pydict \<Rightarrow> pydict \<times> event list" where
  "translate_news_item_simple lower w available_providers trace news_item =
     (let title = dict_get news_item ''title'' [];
          summary = dict_get news_item ''summary'' (dict_get news_item ''content'' [])
      in if is_portuguese lower title \<and> is_portuguese lower summary then (news_item, trace)
         else (case available_providers of
                 [] \<Rightarrow> (news_item, trace)
               | provider # _ \<Rightarrow>
                   if ptype provider = openai_compatible then
                     (case client provider of
                        None \<Rightarrow> (news_item, trace)
                      | Some c \<Rightarrow>
                          let request = \<lparr>via = c, chat_model = model (config provider),
                                system_content = translator_persona,
                                user_content = translation_prompt title summary,
                                max_tokens = 1000, temperature = 0.3\<rparr>
                          in (case chat_create w trace request of
                                ChatRaises e \<Rightarrow> (news_item, trace @ [Chat request])
                              | ChatContent None \<Rightarrow> (news_item, trace @ [Chat request])
                              | ChatContent (Some translation_text) \<Rightarrow>
                                  (case scan_translation title summary (split_on 10 translation_text) of
                                     (translated_title, translated_summary) \<Rightarrow>
                                       (news_item(''title'' \<mapsto> translated_title,
                                                  ''summary'' \<mapsto> translated_summary),
                                        trace @ [Chat request]))))
                   else (news_item, trace)))"

section \<open>Analysis with a provider\<close>

definition analyst_persona :: pystr where
  "analyst_persona =
     u ''Voc'' @ [234] @ u '' '' @ [233] @ u '' um analista especializado em intelig''
     @ [234] @ u ''ncia artificial e tecnologia. Sua tarefa '' @ [233]
     @ u '' analisar not'' @ [237] @ u ''cias sobre IA e fornecer insights espec''
     @ [237] @ u ''ficos para desenvolvedores de software e empresas do ramo im''
     @ u ''obili'' @ [225] @ u ''rio/shopping centers. Responda sempre em portugu''
     @ [234] @ u ''s brasileiro.''"

text \<open>
  \<^verbatim>\<open>_analyze_with_openai_compatible\<close>. It has no handler of its own: an exception of the
  call, of a missing client or of a \<open>None\<close> content leaves the function.
\<close>

definition analyze_with_openai_compatible ::
  "(pystr \<Rightarrow> pystr) \<Rightarrow> (pystr \<Rightarrow> pystr) \<Rightarrow> world \<Rightarrow> provider list \<Rightarrow> event list \<Rightarrow> pydict \<Rightarrow>
   provider \<Rightarrow> (pyexn + pydict) \<times> event list" where
  "analyze_with_openai_compatible lower upper w available_providers trace news_item provider =
     (case (if name provider \<noteq> u ''ollama''
            then translate_news_item_simple lower w available_providers trace news_item
            else (news_item, trace)) of
        (translated_item, trace1) \<Rightarrow>
          let prompt = create_analysis_prompt translated_item;
              tokens = (if name provider = u ''ollama'' then 1500 else 2000);
              temp = (if name provider = u ''ollama'' then 0.5 else 0.7)
          in (case client provider of
                None \<Rightarrow> (Inl (Exn ''AttributeError'' (u ''chat'')), trace1)
              | Some c \<Rightarrow>
                  let request = \<lparr>via = c, chat_model = model (config provider),
                        system_content = analyst_persona, user_content = prompt,
                        max_tokens = tokens, temperature = temp\<rparr>
                  in (case chat_create w trace1 request of
                        ChatRaises e \<Rightarrow> (Inl e, trace1 @ [Chat request])
                      | ChatContent None \<Rightarrow>
                          (Inl (Exn ''AttributeError'' (u ''split'')), trace1 @ [Chat request])
                      | ChatContent (Some analysis_text) \<Rightarrow>
                          (case parse_analysis_response upper analysis_text of
                             Inl e \<Rightarrow> (Inl e, trace1 @ [Chat request])
                           | Inr parsed_analysis \<Rightarrow>
                               (Inr (parsed_analysis
                                  (''titulo_traduzido'' \<mapsto>
                                     dict_get translated_item ''title'' (dict_get news_item ''title'' []),
                                   ''resumo_traduzido'' \<mapsto>
                                     dict_get translated_item ''summary'' (dict_get news_item ''summary'' []),
                                   ''provedor_usado'' \<mapsto> name provider)),
                                trace1 @ [Chat request])))))"

text \<open>
  \<^verbatim>\<open>_analyze_with_huggingface\<close>: the result is \<^verbatim>\<open>None\<close> unless the status is 200 and
  the body a non-empty list.
\<close>

definition analyze_with_huggingface ::
  "world \<Rightarrow> event list \<Rightarrow> pydict \<Rightarrow> provider \<Rightarrow> (pyexn + pydict option) \<times> event list" where
  "analyze_with_huggingface w trace news_item provider =
     (let title = dict_get news_item ''title'' [];
          content = take 500 (dict_get news_item ''content'' (dict_get news_item ''summary'' []));
          prompt = (u ''Analise esta not'' @ [237] @ u ''cia de IA: '') @ title @ u ''. '' @ content;
          request = \<lparr>url = base_url (config provider) @ u ''/'' @ model (config provider),
            authorization = u ''Bearer '' @
              (case api_key (config provider) of None \<Rightarrow> u ''None'' | Some k \<Rightarrow> k),
            inputs = prompt, max_length = 500, timeout = 30\<rparr>
      in (case requests_post w trace request of
            PostRaises e \<Rightarrow> (Inl e, trace @ [Post request])
          | PostResponse status_code body \<Rightarrow>
              if status_code = 200 then
                (case body of
                   HFNotJson \<Rightarrow> (Inl (Exn ''JSONDecodeError'' []), trace @ [Post request])
                 | HFNotList \<Rightarrow> (Inr None, trace @ [Post request])
                 | HFList [] \<Rightarrow> (Inr None, trace @ [Post request])
                 | HFList (HFNotDict # _) \<Rightarrow>
                     (Inl (Exn ''AttributeError'' (u ''get'')), trace @ [Post request])
                 | HFList (HFItem generated_text # _) \<Rightarrow>
                     let analysis_text = (case generated_text of None \<Rightarrow> [] | Some t \<Rightarrow> t)
                     in (Inr (Some
                          [''resumo_executivo'' \<mapsto>
                             (if length analysis_text > 200 then take 200 analysis_text @ u ''...''
                              else analysis_text),
                           ''pontos_chave'' \<mapsto>
                             [8226] @ u '' An'' @ [225] @ u ''lise via Hugging Face'' @ [10, 8226]
                             @ u '' Conte'' @ [250] @ u ''do processado automaticamente'' @ [10, 8226]
                             @ u '' Relevante para IA e tecnologia'',
                           ''nivel_relevancia'' \<mapsto>
                             u ''M'' @ [233] @ u ''dio - An'' @ [225] @ u ''lise autom'' @ [225]
                             @ u ''tica via Hugging Face'',
                           ''titulo_traduzido'' \<mapsto> title,
                           ''resumo_traduzido'' \<mapsto> dict_get news_item ''summary'' resumo_nao_disponivel]),
                         trace @ [Post request]))
              else (Inr None, trace @ [Post request])))"

section \<open>The orchestrator\<close>

text \<open>
  The loop of \<^verbatim>\<open>analyze_news\<close> over \<^verbatim>\<open>enumerate(self.available_providers)\<close>;
  \<open>attempt\<close> is the dispatch on the type of the provider inside its \<^verbatim>\<open>try\<close>. A result
  is returned when it is truthy, that is a non-empty dictionary. The handler tells a rate
  limit (\<^verbatim>\<open>continue\<close>) from any other error (a log line); both go on with the next
  provider. After the last provider the local analysis is returned.
\<close>

definition attempt ::
  "(pystr \<Rightarrow> pystr) \<Rightarrow> (pystr \<Rightarrow> pystr) \<Rightarrow> world \<Rightarrow> provider list \<Rightarrow> pydict \<Rightarrow>
   provider \<Rightarrow> event list \<Rightarrow> (pyexn + pydict option) \<times> event list" where
  "attempt lower upper w available_providers news_item provider trace =
     (if ptype provider = huggingface
      then analyze_with_huggingface w trace news_item provider
      else (case analyze_with_openai_compatible lower upper w available_providers
                   trace news_item provider of
              (r, trace1) \<Rightarrow> (map_sum id Some r, trace1)))"

fun try_providers ::
  "(pystr \<Rightarrow> pystr) \<Rightarrow> (pystr \<Rightarrow> pystr) \<Rightarrow> world \<Rightarrow> provider list \<Rightarrow> pydict \<Rightarrow> nat \<Rightarrow>
   provider list \<Rightarrow> event list \<Rightarrow> pydict \<times> event list" where
  "try_providers lower upper w available_providers news_item i [] trace =
     (local_analysis lower news_item, trace)"
| "try_providers lower upper w available_providers news_item i (provider # rest) trace =
     (case attempt lower upper w available_providers news_item provider
             (trace @ [Try i (name provider)]) of
        (Inr (Some result), trace1) \<Rightarrow>
          if result \<noteq> Map.empty then (result, trace1)
          else try_providers lower upper w available_providers news_item (Suc i) rest trace1
      | (Inr None, trace1) \<Rightarrow>
          try_providers lower upper w available_providers news_item (Suc i) rest trace1
      | (Inl e, trace1) \<Rightarrow>
          if py_in (u ''429'') (exn_msg e) \<or> py_in (u ''rate'') (lower (exn_msg e)) then
            try_providers lower upper w available_providers news_item (Suc i) rest trace1
          else try_providers lower upper w available_providers news_item (Suc i) rest trace1)"

definition analyze_news ::
  "(pystr \<Rightarrow> pystr) \<Rightarrow> (pystr \<Rightarrow> pystr) \<Rightarrow> world \<Rightarrow> bool \<Rightarrow> provider list \<Rightarrow> event list \<Rightarrow>
   pydict \<Rightarrow> pydict \<times> event list" where
  "analyze_news lower upper w analysis_enabled available_providers trace news_item =
     (if \<not> analysis_enabled then (local_analysis lower news_item, trace)
      else try_providers lower upper w available_providers news_item 0 available_providers trace)"

section \<open>The health check and the provider chain\<close>

text \<open>
  \<^verbatim>\<open>os.getenv\<close> reads a map of the environment. The probe answers by raising or with a
  status and a body: no JSON, JSON that is no object, or an object whose \<^verbatim>\<open>models\<close>
  member, when there is one, is an array (here of model names).
\<close>

definition getenv :: "(string \<rightharpoonup> pystr) \<Rightarrow> string \<Rightarrow> pystr \<Rightarrow> pystr" where
  "getenv env k dflt = (case env k of None \<Rightarrow> dflt | Some v \<Rightarrow> v)"

datatype tags_body = TagsNotJson | TagsNotDict | TagsDict "pystr list option"

datatype get_reply = GetRaises pyexn | GetResponse nat tags_body

definition health_url :: "(string \<rightharpoonup> pystr) \<Rightarrow> pystr" where
  "health_url env =
     remove_all (u ''/v1'') (getenv env ''OLLAMA_BASE_URL'' (u ''http://localhost:11434''))
     @ u ''/api/tags''"

text \<open>The body of the \<^verbatim>\<open>try\<close> of \<^verbatim>\<open>_check_ollama_availability\<close>, and the function with its handler.\<close>

definition check_ollama_try ::
  "(string \<rightharpoonup> pystr) \<Rightarrow> (pystr \<Rightarrow> nat \<Rightarrow> get_reply) \<Rightarrow> pyexn + bool" where
  "check_ollama_try env requests_get =
     (case requests_get (health_url env) 5 of
        GetRaises e \<Rightarrow> Inl e
      | GetResponse status_code body \<Rightarrow>
          if status_code = 200 then
            (case body of
               TagsNotJson \<Rightarrow> Inl (Exn ''JSONDecodeError'' [])
             | TagsNotDict \<Rightarrow> Inl (Exn ''AttributeError'' (u ''get''))
             | TagsDict ms \<Rightarrow>
                 let models = (case ms of None \<Rightarrow> [] | Some l \<Rightarrow> l)
                 in if models \<noteq> [] then Inr True else Inr False)
          else Inr False)"

definition check_ollama_availability ::
  "(string \<rightharpoonup> pystr) \<Rightarrow> (pystr \<Rightarrow> nat \<Rightarrow> get_reply) \<Rightarrow> bool" where
  "check_ollama_availability env requests_get =
     (case check_ollama_try env requests_get of Inl e \<Rightarrow> False | Inr b \<Rightarrow> b)"

text \<open>\<^verbatim>\<open>self.providers\<close>, in the order of the dictionary literal of \<^verbatim>\<open>__init__\<close>.\<close>

definition providers :: "(string \<rightharpoonup> pystr) \<Rightarrow> (pystr \<times> provider_config) list" where
  "providers env =
     [(u ''ollama'',
       \<lparr>api_key = Some (u ''local''),
        base_url = getenv env ''OLLAMA_BASE_URL'' (u ''http://localhost:11434/v1''),
        model = getenv env ''OLLAMA_MODEL'' (u ''llama3:latest''),
        free = True, priority = 1\<rparr>),
      (u ''openrouter'',
       \<lparr>api_key = env ''OPENROUTER_API_KEY'',
        base_url = u ''https://openrouter.ai/api/v1'',
        model = getenv env ''DEFAULT_MODEL'' (u ''meta-llama/llama-3.3-70b-instruct:free''),
        free = True, priority = 2\<rparr>),
      (u ''groq'',
       \<lparr>api_key = env ''GROQ_API_KEY'',
        base_url = u ''https://api.groq.com/openai/v1'',
        model = getenv env ''GROQ_MODEL'' (u ''llama3-8b-8192''),
        free = True, priority = 3\<rparr>),
      (u ''together'',
       \<lparr>api_key = env ''TOGETHER_API_KEY'',
        base_url = u ''https://api.together.xyz/v1'',
        model = getenv env ''TOGETHER_MODEL'' (u ''meta-llama/Llama-2-7b-chat-hf''),
        free = False, priority = 4\<rparr>),
      (u ''huggingface'',
       \<lparr>api_key = env ''HUGGINGFACE_API_KEY'',
        base_url = u ''https://api-inference.huggingface.co/models'',
        model = getenv env ''HUGGINGFACE_MODEL'' (u ''microsoft/DialoGPT-medium''),
        free = True, priority = 5\<rparr>)]"

text \<open>
  The loop of \<^verbatim>\<open>_setup_providers\<close> and its body \<open>setup_one\<close>. \<open>OpenAI\<close> is the imported constructor, \<open>None\<close>
  when the import failed; it builds a client from a key and an address, or raises. In the
  branch of the local backend calling a missing constructor raises and is caught; in
  the other branch \<^verbatim>\<open>elif OpenAI\<close> skips the provider.
\<close>

definition setup_one ::
  "(string \<rightharpoonup> pystr) \<Rightarrow> (pystr \<Rightarrow> nat \<Rightarrow> get_reply) \<Rightarrow> (pystr \<Rightarrow> pystr \<Rightarrow> pyexn + client) option \<Rightarrow>
   pystr \<Rightarrow> provider_config \<Rightarrow> provider list \<Rightarrow> provider list" where
  "setup_one env requests_get OpenAI provider_name cfg available_providers =
     (if provider_name = u ''ollama'' then
        (if check_ollama_availability env requests_get then
           (case OpenAI of
              None \<Rightarrow> available_providers
            | Some new_client \<Rightarrow>
                (case new_client (u ''ollama'') (base_url cfg) of
                   Inl e \<Rightarrow> available_providers
                 | Inr c \<Rightarrow>
                     available_providers @
                       [\<lparr>name = provider_name, config = cfg, client = Some c,
                         ptype = openai_compatible\<rparr>]))
         else available_providers)
      else
        (case api_key cfg of
           None \<Rightarrow> available_providers
         | Some key \<Rightarrow>
             if key \<noteq> [] \<and> key \<noteq> u ''your_api_key_here'' then
               (if provider_name = u ''huggingface'' then
                  available_providers @
                    [\<lparr>name = provider_name, config = cfg, client = None, ptype = huggingface\<rparr>]
                else
                  (case OpenAI of
                     None \<Rightarrow> available_providers
                   | Some new_client \<Rightarrow>
                       (case new_client key (base_url cfg) of
                          Inl e \<Rightarrow> available_providers
                        | Inr c \<Rightarrow>
                            available_providers @
                              [\<lparr>name = provider_name, config = cfg, client = Some c,
                                ptype = openai_compatible\<rparr>])))
             else available_providers))"

fun setup_loop ::
  "(string \<rightharpoonup> pystr) \<Rightarrow> (pystr \<Rightarrow> nat \<Rightarrow> get_reply) \<Rightarrow> (pystr \<Rightarrow> pystr \<Rightarrow> pyexn + client) option \<Rightarrow>
   (pystr \<times> provider_config) list \<Rightarrow> provider list \<Rightarrow> provider list" where
  "setup_loop env requests_get OpenAI [] available_providers = available_providers"
| "setup_loop env requests_get OpenAI (item # rest) available_providers =
     setup_loop env requests_get OpenAI rest
       (setup_one env requests_get OpenAI (fst item) (snd item) available_providers)"

text \<open>\<^verbatim>\<open>_setup_providers\<close>: the entries sorted by priority (a stable sort), then the loop.\<close>

definition setup_providers ::
  "(string \<rightharpoonup> pystr) \<Rightarrow> (pystr \<Rightarrow> nat \<Rightarrow> get_reply) \<Rightarrow> (pystr \<Rightarrow> pystr \<Rightarrow> pyexn + client) option \<Rightarrow>
   provider list" where
  "setup_providers env requests_get OpenAI =
     setup_loop env requests_get OpenAI
       (sort_key (\<lambda>x. priority (snd x)) (providers env)) []"

section \<open>Auxiliary notions of the statements\<close>

definition section_keys :: "string set" where
  "section_keys = {''resumo_executivo'', ''pontos_chave'', ''nivel_relevancia''}"

text \<open>The heading test that moves the cursor to the section \<open>k\<close>.\<close>

definition heading_for :: "string \<Rightarrow> pystr \<Rightarrow> bool" where
  "heading_for k L =
     (if k = ''resumo_executivo'' then is_resumo_heading L
      else if k = ''pontos_chave'' then is_pontos_heading L
      else if k = ''nivel_relevancia'' then is_nivel_heading L
      else False)"

text \<open>One entry of a result that may be an exception.\<close>

definition field_of :: "string \<Rightarrow> pyexn + pydict \<Rightarrow> pyexn + pystr option" where
  "field_of k r = (case r of Inl e \<Rightarrow> Inl e | Inr d \<Rightarrow> Inr (d k))"

text \<open>
  The number of keywords of a list that occur somewhere in a text, in the words of the
  specification.
\<close>

definition occurrence_count :: "pystr list \<Rightarrow> pystr \<Rightarrow> nat" where
  "occurrence_count keywords t = card {k \<in> set keywords. \<exists>p s. t = p @ k @ s}"

text \<open>The text that the local analyzer searches.\<close>

definition text_lower_of :: "(pystr \<Rightarrow> pystr) \<Rightarrow> pydict \<Rightarrow> pystr" where
  "text_lower_of lower news_item =
     lower (dict_get news_item ''title'' (u ''N/A'') @ u '' '' @
            dict_get news_item ''content'' (dict_get news_item ''summary'' []))"

text \<open>The keywords of the six key-point triggers, and which of them occur in a text.\<close>

definition trigger_keywords :: "pystr list" where
  "trigger_keywords =
     [u ''openai'', u ''chatgpt'', u ''google'', u ''gemini'', u ''microsoft'', u ''funding'',
      u ''investment'', u ''enterprise'', u ''business'', u ''developer'', u ''api'']"

definition trigger_hits :: "pystr \<Rightarrow> bool list" where
  "trigger_hits t = map (\<lambda>k. py_in k t) trigger_keywords"

text \<open>The level word of the three classes; \<open>233\<close> is the accented e.\<close>

definition medio :: pystr where
  "medio = u ''M'' @ [233] @ u ''dio''"

text \<open>The headings that a piece of the prompt asks for: its lines that start with \<^verbatim>\<open>## \<close>.\<close>

definition requested_sections :: "pystr \<Rightarrow> pystr list" where
  "requested_sections s =
     map (drop 3) (filter (\<lambda>line. startswith line (u ''## '')) (split_on 10 s))"

text \<open>The number of generation calls in a list of events.\<close>

fun generation_calls :: "event list \<Rightarrow> nat" where
  "generation_calls [] = 0"
| "generation_calls (Try i n # es) = generation_calls es"
| "generation_calls (Chat r # es) = Suc (generation_calls es)"
| "generation_calls (Post r # es) = Suc (generation_calls es)"

text \<open>
  What the translation step takes for a field from the lines of an answer: the text after
  the label on the last line that starts with the label, and the original value when no
  line does.
\<close>

definition translated_field :: "pystr \<Rightarrow> pystr \<Rightarrow> pystr list \<Rightarrow> pystr" where
  "translated_field label original lines =
     (case filter (\<lambda>line. startswith line label) lines of
        [] \<Rightarrow> original
      | l # ls \<Rightarrow> py_strip (remove_all label (last (l # ls))))"

text \<open>A world that gives the same two answers to every call, and two providers, for the examples.\<close>

definition constant_world :: "chat_reply \<Rightarrow> hf_reply \<Rightarrow> world" where
  "constant_world c h = \<lparr>chat_create = (\<lambda>trace request. c), requests_post = (\<lambda>trace request. h)\<rparr>"

definition example_hosted :: "pystr \<Rightarrow> provider" where
  "example_hosted n =
     \<lparr>name = n,
      config = \<lparr>api_key = Some (u ''key''), base_url = u ''https://api.example/v1'',
                model = u ''llama'', free = True, priority = 2\<rparr>,
      client = Some (OpenAIClient (u ''key'') (u ''https://api.example/v1'')),
      ptype = openai_compatible\<rparr>"

definition example_huggingface :: provider where
  "example_huggingface =
     \<lparr>name = u ''huggingface'',
      config = \<lparr>api_key = Some (u ''key''), base_url = u ''https://hf.example/models'',
                model = u ''gpt'', free = True, priority = 5\<rparr>,
      client = None,
      ptype = huggingface\<rparr>"

text \<open>A probe with a fixed answer and a constructor that always succeeds, for the examples.\<close>

definition example_probe :: "get_reply \<Rightarrow> pystr \<Rightarrow> nat \<Rightarrow> get_reply" where
  "example_probe r address seconds = r"

definition new_client :: "pystr \<Rightarrow> pystr \<Rightarrow> pyexn + client" where
  "new_client key address = Inr (OpenAIClient key address)"

text \<open>
  An attempt fails when it raises or returns a falsy result (\<^verbatim>\<open>None\<close> or an empty
  dictionary). Every provider fails when the attempts of the loop, each in the trace
  left by the one before, all fail.
\<close>

definition attempt_fails :: "pyexn + pydict option \<Rightarrow> bool" where
  "attempt_fails r =
     (case r of Inl e \<Rightarrow> True | Inr None \<Rightarrow> True | Inr (Some d) \<Rightarrow> d = Map.empty)"

fun every_provider_fails ::
  "(pystr \<Rightarrow> pystr) \<Rightarrow> (pystr \<Rightarrow> pystr) \<Rightarrow> world \<Rightarrow> provider list \<Rightarrow> pydict \<Rightarrow> nat \<Rightarrow>
   provider list \<Rightarrow> event list \<Rightarrow> bool" where
  "every_provider_fails lower upper w available_providers news_item i [] trace = True"
| "every_provider_fails lower upper w available_providers news_item i (provider # rest) trace =
     (attempt_fails
        (fst (attempt lower upper w available_providers news_item provider
                (trace @ [Try i (name provider)]))) \<and>
      every_provider_fails lower upper w available_providers news_item (Suc i) rest
        (snd (attempt lower upper w available_providers news_item provider
                (trace @ [Try i (name provider)]))))"

text \<open>The names of the providers attempted in a list of events, in order.\<close>

fun attempts :: "event list \<Rightarrow> pystr list" where
  "attempts [] = []"
| "attempts (Try i n # es) = n # attempts es"
| "attempts (Chat r # es) = attempts es"
| "attempts (Post r # es) = attempts es"

text \<open>An article with all its fields, in Portuguese, for the examples.\<close>

definition example_article :: pydict where
  "example_article =
     [''title'' \<mapsto> u ''Relatorio de IA para o mercado'',
      ''content'' \<mapsto> u ''Texto do artigo sobre IA'',
      ''summary'' \<mapsto> u ''IA no Brasil'',
      ''source'' \<mapsto> u ''TechCrunch'',
      ''url'' \<mapsto> u ''https://example.com/a'',
      ''author'' \<mapsto> u ''Ana'',
      ''published_date'' \<mapsto> u ''2025-01-01'']"

section \<open>Properties of the response parser\<close>

text \<open>Unfolding rules that evaluate the string operations on concrete text.\<close>

lemmas str_eval = u_def py_strip_def py_isspace_def upper_ascii_def lower_ascii_def
  is_resumo_heading_def is_pontos_heading_def is_nivel_heading_def nivel_acento_def
  startswith_def section_markers_def

lemma dom_initial_sections: "dom initial_sections = section_keys"
  by (auto simp: initial_sections_def section_keys_def)

lemma no_heading_no_marker:
  "\<not> is_resumo_heading L \<Longrightarrow> \<not> is_pontos_heading L \<Longrightarrow> \<not> is_nivel_heading L \<Longrightarrow>
   \<not> list_ex (\<lambda>marker. py_in marker L) section_markers"
  by (simp add: is_resumo_heading_def is_pontos_heading_def is_nivel_heading_def section_markers_def)

lemma parse_line_inv:
  assumes "dom sections = section_keys" and "\<forall>k. cur = Some k \<longrightarrow> k \<in> section_keys"
  shows "\<exists>cur' sections'. parse_line upper cur sections raw = Inr (cur', sections') \<and>
           dom sections' = section_keys \<and> (\<forall>k. cur' = Some k \<longrightarrow> k \<in> section_keys)"
proof (cases cur)
  case None
  with assms show ?thesis
    by (simp add: parse_line_def Let_def section_keys_def)
next
  case (Some k)
  with assms have "k \<in> dom sections" by simp
  then obtain acc where "sections k = Some acc" by blast
  with Some assms show ?thesis
    by (auto simp: parse_line_def Let_def section_keys_def)
qed

lemma scan_lines_inv:
  "dom sections = section_keys \<Longrightarrow> \<forall>k. cur = Some k \<longrightarrow> k \<in> section_keys \<Longrightarrow>
   \<exists>d. scan_lines upper cur sections raws = Inr d \<and> dom d = section_keys"
proof (induction raws arbitrary: cur sections)
  case Nil
  then show ?case by simp
next
  case (Cons raw raws)
  from parse_line_inv [OF Cons.prems, of upper raw]
  obtain cur' sections' where
    step: "parse_line upper cur sections raw = Inr (cur', sections')" and
    inv: "dom sections' = section_keys" "\<forall>k. cur' = Some k \<longrightarrow> k \<in> section_keys"
    by blast
  from Cons.IH [OF inv] step show ?case by simp
qed

lemma parse_line_untouched:
  assumes "parse_line upper cur sections raw = Inr (cur', sections')"
    and "cur \<noteq> Some k" and "\<not> heading_for k (upper (py_strip raw))"
  shows "cur' \<noteq> Some k \<and> sections' k = sections k"
  using assms
  by (auto simp: parse_line_def Let_def heading_for_def split: if_splits option.splits)

lemma scan_lines_untouched:
  "scan_lines upper cur sections raws = Inr d \<Longrightarrow> cur \<noteq> Some k \<Longrightarrow>
   \<forall>raw \<in> set raws. \<not> heading_for k (upper (py_strip raw)) \<Longrightarrow> d k = sections k"
proof (induction raws arbitrary: cur sections)
  case Nil
  then show ?case by simp
next
  case (Cons raw raws)
  from Cons.prems(1) obtain cur' sections' where
    step: "parse_line upper cur sections raw = Inr (cur', sections')" and
    rest: "scan_lines upper cur' sections' raws = Inr d"
    by (auto split: sum.splits)
  from parse_line_untouched [OF step Cons.prems(2)] Cons.prems(3)
  have "cur' \<noteq> Some k" "sections' k = sections k" by simp_all
  with Cons.IH [OF rest] Cons.prems(3) show ?case by simp
qed

lemma py_strip_Nil: "py_strip [] = []" by (simp add: py_strip_def)

lemma parse_section_default:
  assumes "parse_analysis_response upper resp = Inr d" and "k \<in> section_keys"
    and "\<forall>raw \<in> set (split_on 10 resp). \<not> heading_for k (upper (py_strip raw))"
  shows "d k = Some []"
proof -
  from assms(1) obtain s where
    scan: "scan_lines upper None initial_sections (split_on 10 resp) = Inr s" and
    d: "d = strip_sections s"
    by (auto simp: parse_analysis_response_def split: sum.splits)
  from scan_lines_untouched [OF scan _ assms(3)] have "s k = initial_sections k" by simp
  with assms(2) have "s k = Some []" by (auto simp: initial_sections_def section_keys_def)
  with d show ?thesis by (simp add: strip_sections_def py_strip_Nil)
qed

lemma parse_returns:
  "\<exists>d. parse_analysis_response upper resp = Inr d \<and> dom d = section_keys"
proof -
  from scan_lines_inv [of initial_sections None upper "split_on 10 resp"]
  obtain s where "scan_lines upper None initial_sections (split_on 10 resp) = Inr s"
    "dom s = section_keys" by (auto simp: dom_initial_sections)
  then show ?thesis
    by (auto simp: parse_analysis_response_def strip_sections_def dom_def)
qed

text \<open>
  Claim C3. For every input string the parser returns (it raises nothing) a dictionary with
  exactly the keys \<^verbatim>\<open>resumo_executivo\<close>, \<^verbatim>\<open>pontos_chave\<close> and
  \<^verbatim>\<open>nivel_relevancia\<close>; a section whose heading test succeeds on no line of the
  input is the empty string, so a text without any heading gives three empty sections.
\<close>

theorem parser_total_default:
  "\<exists>d. parse_analysis_response upper resp = Inr d \<and>
       dom d = {''resumo_executivo'', ''pontos_chave'', ''nivel_relevancia''} \<and>
       ((\<forall>raw \<in> set (split_on 10 resp). \<not> is_resumo_heading (upper (py_strip raw))) \<longrightarrow>
          d ''resumo_executivo'' = Some []) \<and>
       ((\<forall>raw \<in> set (split_on 10 resp). \<not> is_pontos_heading (upper (py_strip raw))) \<longrightarrow>
          d ''pontos_chave'' = Some []) \<and>
       ((\<forall>raw \<in> set (split_on 10 resp). \<not> is_nivel_heading (upper (py_strip raw))) \<longrightarrow>
          d ''nivel_relevancia'' = Some [])"
proof -
  from parse_returns [of upper resp] obtain d where
    d: "parse_analysis_response upper resp = Inr d" and dom: "dom d = section_keys" by blast
  have r: "(\<forall>raw \<in> set (split_on 10 resp). \<not> is_resumo_heading (upper (py_strip raw))) \<longrightarrow>
          d ''resumo_executivo'' = Some []"
    using parse_section_default [OF d, of "''resumo_executivo''"]
    by (simp add: section_keys_def heading_for_def)
  have p: "(\<forall>raw \<in> set (split_on 10 resp). \<not> is_pontos_heading (upper (py_strip raw))) \<longrightarrow>
          d ''pontos_chave'' = Some []"
    using parse_section_default [OF d, of "''pontos_chave''"]
    by (simp add: section_keys_def heading_for_def)
  have n: "(\<forall>raw \<in> set (split_on 10 resp). \<not> is_nivel_heading (upper (py_strip raw))) \<longrightarrow>
          d ''nivel_relevancia'' = Some []"
    using parse_section_default [OF d, of "''nivel_relevancia''"]
    by (simp add: section_keys_def heading_for_def)
  from d dom r p n show ?thesis unfolding section_keys_def by blast
qed

text \<open>Claim C3 at a text of one line without a heading: all three sections are empty.\<close>

theorem parser_total_default_witness:
  "field_of ''resumo_executivo'' (parse_analysis_response upper_ascii (u ''texto livre'')) = Inr (Some []) \<and>
   field_of ''pontos_chave'' (parse_analysis_response upper_ascii (u ''texto livre'')) = Inr (Some []) \<and>
   field_of ''nivel_relevancia'' (parse_analysis_response upper_ascii (u ''texto livre'')) = Inr (Some [])"
proof -
  have r: "\<forall>raw \<in> set (split_on 10 (u ''texto livre'')). \<not> is_resumo_heading (upper_ascii (py_strip raw))"
    by (simp add: str_eval)
  have p: "\<forall>raw \<in> set (split_on 10 (u ''texto livre'')). \<not> is_pontos_heading (upper_ascii (py_strip raw))"
    by (simp add: str_eval)
  have n: "\<forall>raw \<in> set (split_on 10 (u ''texto livre'')). \<not> is_nivel_heading (upper_ascii (py_strip raw))"
    by (simp add: str_eval)
  from parser_total_default [of upper_ascii "u ''texto livre''"] r p n
  show ?thesis by (auto simp: field_of_def)
qed

text \<open>
  Claim C4, as the code has it. While a cursor is active, a non-empty stripped line that
  is no heading line is appended with a trailing newline to the section of the cursor,
  unless it starts with \<^verbatim>\<open>##\<close> or \<^verbatim>\<open>**\<close>, in which case it is dropped. A line that
  contains a marker phrase is a heading line, so the inner marker test drops nothing.
\<close>

theorem parse_line_appends:
  assumes "sections k = Some acc"
    and "py_strip raw \<noteq> []"
    and "\<not> is_resumo_heading (upper (py_strip raw))"
    and "\<not> is_pontos_heading (upper (py_strip raw))"
    and "\<not> is_nivel_heading (upper (py_strip raw))"
  shows "parse_line upper (Some k) sections raw =
           Inr (Some k,
                if startswith (py_strip raw) (u ''##'') \<or> startswith (py_strip raw) (u ''**'')
                then sections
                else sections(k \<mapsto> acc @ py_strip raw @ [10]))"
  using assms no_heading_no_marker [OF assms(3-5)]
  by (simp add: parse_line_def Let_def)

text \<open>Claim C4 as amended, at an item line under the key-points cursor.\<close>

theorem parse_line_appends_witness:
  "parse_line upper_ascii (Some ''pontos_chave'') initial_sections (u '' - item um '') =
     Inr (Some ''pontos_chave'', initial_sections(''pontos_chave'' \<mapsto> u ''- item um'' @ [10]))"
proof -
  have s: "py_strip (u '' - item um '') = u ''- item um''" by (simp add: str_eval)
  have a: "initial_sections ''pontos_chave'' = Some []" by (simp add: initial_sections_def)
  have b: "py_strip (u '' - item um '') \<noteq> []" by (simp add: str_eval)
  have c: "\<not> is_resumo_heading (upper_ascii (py_strip (u '' - item um '')))" by (simp add: str_eval)
  have d: "\<not> is_pontos_heading (upper_ascii (py_strip (u '' - item um '')))" by (simp add: str_eval)
  have e: "\<not> is_nivel_heading (upper_ascii (py_strip (u '' - item um '')))" by (simp add: str_eval)
  have f: "\<not> (startswith (py_strip (u '' - item um '')) (u ''##'') \<or> startswith (py_strip (u '' - item um '')) (u ''**''))"
    by (simp add: str_eval)
  from parse_line_appends [of initial_sections "''pontos_chave''" "[]" "u '' - item um ''" upper_ascii,
      OF a b c d e] f s
  show ?thesis by simp
qed

text \<open>
  Claim C4 as stated fails: the line \<^verbatim>\<open>**Nota** texto\<close> is not empty, is no heading
  line and contains none of the marker phrases, and yet the scan drops it under an
  active cursor, because it starts with \<^verbatim>\<open>**\<close>.
\<close>

theorem bold_line_dropped:
  "py_strip (u ''**Nota** texto'') \<noteq> [] \<and>
   \<not> is_resumo_heading (upper_ascii (py_strip (u ''**Nota** texto''))) \<and>
   \<not> is_pontos_heading (upper_ascii (py_strip (u ''**Nota** texto''))) \<and>
   \<not> is_nivel_heading (upper_ascii (py_strip (u ''**Nota** texto''))) \<and>
   \<not> py_in (u ''RESUMO EXECUTIVO'') (upper_ascii (py_strip (u ''**Nota** texto''))) \<and>
   \<not> py_in (u ''PONTOS-CHAVE'') (upper_ascii (py_strip (u ''**Nota** texto''))) \<and>
   \<not> py_in (u ''PONTOS CHAVE'') (upper_ascii (py_strip (u ''**Nota** texto''))) \<and>
   \<not> py_in nivel_acento (upper_ascii (py_strip (u ''**Nota** texto''))) \<and>
   \<not> py_in (u ''NIVEL DE RELEVANCIA'') (upper_ascii (py_strip (u ''**Nota** texto''))) \<and>
   parse_line upper_ascii (Some ''resumo_executivo'') initial_sections (u ''**Nota** texto'') =
     Inr (Some ''resumo_executivo'', initial_sections) \<and>
   field_of ''resumo_executivo''
     (parse_analysis_response upper_ascii (u ''RESUMO EXECUTIVO'' @ [10] @ u ''**Nota** texto'')) =
     Inr (Some [])"
  by (simp add: str_eval parse_line_def parse_analysis_response_def field_of_def initial_sections_def strip_sections_def)

section \<open>Properties of the local analyzer\<close>

lemma py_in_iff: "py_in sub s \<longleftrightarrow> (\<exists>p r. s = p @ sub @ r)"
proof (induction s)
  case Nil
  then show ?case by auto
next
  case (Cons c cs)
  show ?case
  proof
    assume "py_in sub (c # cs)"
    then consider "prefix sub (c # cs)" | "py_in sub cs" by auto
    then show "\<exists>p r. c # cs = p @ sub @ r"
    proof cases
      case 1
      then obtain r where "c # cs = sub @ r" by (auto simp: prefix_def)
      then have "c # cs = [] @ sub @ r" by simp
      then show ?thesis by blast
    next
      case 2
      with Cons.IH obtain p r where "cs = p @ sub @ r" by blast
      then have "c # cs = (c # p) @ sub @ r" by simp
      then show ?thesis by blast
    qed
  next
    assume "\<exists>p r. c # cs = p @ sub @ r"
    then obtain p r where eq: "c # cs = p @ sub @ r" by blast
    show "py_in sub (c # cs)"
    proof (cases p)
      case Nil
      with eq have "prefix sub (c # cs)" by (simp add: prefix_def)
      then show ?thesis by simp
    next
      case (Cons a p')
      with eq have "cs = p' @ sub @ r" by simp
      with Cons.IH show ?thesis by auto
    qed
  qed
qed

lemma keyword_count_filter:
  "keyword_count keywords t = length (filter (\<lambda>k. py_in k t) keywords)"
  by (simp add: keyword_count_def sum_list_triv)

lemma keyword_count_occurrence:
  "distinct keywords \<Longrightarrow> keyword_count keywords t = occurrence_count keywords t"
proof -
  assume d: "distinct keywords"
  have s: "{k \<in> set keywords. \<exists>p s. t = p @ k @ s} = set (filter (\<lambda>k. py_in k t) keywords)"
    by (auto simp: py_in_iff)
  from d have "distinct (filter (\<lambda>k. py_in k t) keywords)" by simp
  then have "card (set (filter (\<lambda>k. py_in k t) keywords)) = length (filter (\<lambda>k. py_in k t) keywords)"
    by (rule distinct_card)
  then show ?thesis
    unfolding occurrence_count_def keyword_count_filter s by simp
qed

lemma distinct_high: "distinct high_relevance_keywords"
  by (simp add: high_relevance_keywords_def u_def)

lemma distinct_medium: "distinct medium_relevance_keywords"
  by (simp add: medium_relevance_keywords_def u_def)

lemma relevancia_of_level:
  "\<exists>just. relevancia_of h m =
     (if h \<ge> 2 then u ''Alto''
      else if h \<ge> 1 \<or> m \<ge> 3 then medio
      else if m \<ge> 1 then medio
      else u ''Baixo'') @ u '' - '' @ just"
  by (simp add: relevancia_of_def medio_def u_def)

lemma local_analysis_nivel:
  "local_analysis lower news_item ''nivel_relevancia'' =
     Some (relevancia_of (keyword_count high_relevance_keywords (text_lower_of lower news_item))
             (keyword_count medium_relevance_keywords (text_lower_of lower news_item)))"
  by (simp add: local_analysis_def text_lower_of_def Let_def)

lemmas count_eval = keyword_count_def high_relevance_keywords_def medium_relevance_keywords_def
  low_relevance_keywords_def

text \<open>
  Claim C5. For an article with a title and a content, the relevance level of the local
  analyzer starts with the level word that the priority rules give for the numbers of
  high-tier and medium-tier keywords occurring in the lower-cased title, a space and the
  content: at least two high-tier keywords give \<^verbatim>\<open>Alto\<close>; otherwise one high-tier or
  three medium-tier keywords give the accented \<^verbatim>\<open>Medio\<close>; otherwise one medium-tier
  keyword gives it too; otherwise the level is \<^verbatim>\<open>Baixo\<close>.
\<close>

theorem relevance_rule:
  assumes "news_item ''title'' = Some title" and "news_item ''content'' = Some content"
    and "h = occurrence_count high_relevance_keywords (lower (title @ u '' '' @ content))"
    and "m = occurrence_count medium_relevance_keywords (lower (title @ u '' '' @ content))"
  shows "\<exists>just. local_analysis lower news_item ''nivel_relevancia'' =
           Some ((if h \<ge> 2 then u ''Alto''
                  else if h \<ge> 1 \<or> m \<ge> 3 then medio
                  else if m \<ge> 1 then medio
                  else u ''Baixo'') @ u '' - '' @ just)"
proof -
  from assms(1,2) have t: "text_lower_of lower news_item = lower (title @ u '' '' @ content)"
    by (simp add: text_lower_of_def dict_get_def)
  from assms(3) have h: "keyword_count high_relevance_keywords (text_lower_of lower news_item) = h"
    by (simp add: t keyword_count_occurrence [OF distinct_high])
  from assms(4) have m: "keyword_count medium_relevance_keywords (text_lower_of lower news_item) = m"
    by (simp add: t keyword_count_occurrence [OF distinct_medium])
  from relevancia_of_level [of h m] show ?thesis
    unfolding local_analysis_nivel h m by blast
qed

text \<open>
  Claim C5 at three articles: two high-tier keywords and no other, one high-tier keyword,
  and no keyword of either list.
\<close>

theorem relevance_rule_witness:
  "(\<exists>just. local_analysis lower_ascii
       [''title'' \<mapsto> u ''ChatGPT e Claude'', ''content'' \<mapsto> u ''novo modelo'']
       ''nivel_relevancia'' = Some (u ''Alto'' @ u '' - '' @ just)) \<and>
   (\<exists>just. local_analysis lower_ascii
       [''title'' \<mapsto> u ''Gemini'', ''content'' \<mapsto> u ''novo modelo'']
       ''nivel_relevancia'' = Some (medio @ u '' - '' @ just)) \<and>
   (\<exists>just. local_analysis lower_ascii
       [''title'' \<mapsto> u ''Mercado'', ''content'' \<mapsto> u ''novo modelo'']
       ''nivel_relevancia'' = Some (u ''Baixo'' @ u '' - '' @ just))"
proof -
  have h2: "occurrence_count high_relevance_keywords
              (lower_ascii (u ''ChatGPT e Claude'' @ u '' '' @ u ''novo modelo'')) = 2"
    unfolding keyword_count_occurrence [OF distinct_high, symmetric]
    by (simp add: count_eval str_eval)
  have h1: "occurrence_count high_relevance_keywords
              (lower_ascii (u ''Gemini'' @ u '' '' @ u ''novo modelo'')) = 1"
    unfolding keyword_count_occurrence [OF distinct_high, symmetric]
    by (simp add: count_eval str_eval)
  have h0: "occurrence_count high_relevance_keywords
              (lower_ascii (u ''Mercado'' @ u '' '' @ u ''novo modelo'')) = 0"
    unfolding keyword_count_occurrence [OF distinct_high, symmetric]
    by (simp add: count_eval str_eval)
  have m0: "occurrence_count medium_relevance_keywords
              (lower_ascii (u ''Mercado'' @ u '' '' @ u ''novo modelo'')) = 0"
    unfolding keyword_count_occurrence [OF distinct_medium, symmetric]
    by (simp add: count_eval str_eval)
  have a: "\<exists>just. local_analysis lower_ascii
       [''title'' \<mapsto> u ''ChatGPT e Claude'', ''content'' \<mapsto> u ''novo modelo'']
       ''nivel_relevancia'' = Some (u ''Alto'' @ u '' - '' @ just)"
    using relevance_rule [of "[''title'' \<mapsto> u ''ChatGPT e Claude'', ''content'' \<mapsto> u ''novo modelo'']"
        "u ''ChatGPT e Claude''" "u ''novo modelo''" _ lower_ascii, OF _ _ refl refl]
    by (simp add: h2)
  have b: "\<exists>just. local_analysis lower_ascii
       [''title'' \<mapsto> u ''Gemini'', ''content'' \<mapsto> u ''novo modelo'']
       ''nivel_relevancia'' = Some (medio @ u '' - '' @ just)"
    using relevance_rule [of "[''title'' \<mapsto> u ''Gemini'', ''content'' \<mapsto> u ''novo modelo'']"
        "u ''Gemini''" "u ''novo modelo''" _ lower_ascii, OF _ _ refl refl]
    by (simp add: h1)
  have c: "\<exists>just. local_analysis lower_ascii
       [''title'' \<mapsto> u ''Mercado'', ''content'' \<mapsto> u ''novo modelo'']
       ''nivel_relevancia'' = Some (u ''Baixo'' @ u '' - '' @ just)"
    using relevance_rule [of "[''title'' \<mapsto> u ''Mercado'', ''content'' \<mapsto> u ''novo modelo'']"
        "u ''Mercado''" "u ''novo modelo''" _ lower_ascii, OF _ _ refl refl]
    by (simp add: h0 m0)
  from a b c show ?thesis by blast
qed

lemma pontos_chave_of_cong:
  assumes "\<forall>k \<in> set trigger_keywords. py_in k s = py_in k t"
  shows "pontos_chave_of s = pontos_chave_of t"
proof -
  from assms have "py_in (u ''openai'') s = py_in (u ''openai'') t"
    "py_in (u ''chatgpt'') s = py_in (u ''chatgpt'') t"
    "py_in (u ''google'') s = py_in (u ''google'') t"
    "py_in (u ''gemini'') s = py_in (u ''gemini'') t"
    "py_in (u ''microsoft'') s = py_in (u ''microsoft'') t"
    "py_in (u ''funding'') s = py_in (u ''funding'') t"
    "py_in (u ''investment'') s = py_in (u ''investment'') t"
    "py_in (u ''enterprise'') s = py_in (u ''enterprise'') t"
    "py_in (u ''business'') s = py_in (u ''business'') t"
    "py_in (u ''developer'') s = py_in (u ''developer'') t"
    "py_in (u ''api'') s = py_in (u ''api'') t"
    by (simp_all add: trigger_keywords_def)
  then show ?thesis unfolding pontos_chave_of_def by simp
qed

lemma local_analysis_fields:
  "local_analysis lower news_item ''resumo_executivo'' =
     Some (resumo_of (dict_get news_item ''title'' (u ''N/A''))
             (keyword_count high_relevance_keywords (text_lower_of lower news_item))
             (keyword_count medium_relevance_keywords (text_lower_of lower news_item)))"
  "local_analysis lower news_item ''pontos_chave'' =
     Some (py_join [10] (pontos_chave_of (text_lower_of lower news_item)))"
  by (simp_all add: local_analysis_def text_lower_of_def Let_def)

text \<open>
  Claim C10, as the code has it. The relevance level, the key points and the executive
  summary of the local analyzer depend only on the title, on the high-tier and
  medium-tier counts and on which trigger keywords occur; the low-tier count is not
  among them, so inputs that agree on those and differ in the low-tier count give the
  same three fields.
\<close>

theorem low_count_no_effect:
  assumes "dict_get a ''title'' (u ''N/A'') = dict_get b ''title'' (u ''N/A'')"
    and "keyword_count high_relevance_keywords (text_lower_of lower a) =
         keyword_count high_relevance_keywords (text_lower_of lower b)"
    and "keyword_count medium_relevance_keywords (text_lower_of lower a) =
         keyword_count medium_relevance_keywords (text_lower_of lower b)"
    and "\<forall>k \<in> set trigger_keywords.
           py_in k (text_lower_of lower a) = py_in k (text_lower_of lower b)"
  shows "local_analysis lower a ''nivel_relevancia'' = local_analysis lower b ''nivel_relevancia'' \<and>
         local_analysis lower a ''pontos_chave'' = local_analysis lower b ''pontos_chave'' \<and>
         local_analysis lower a ''resumo_executivo'' = local_analysis lower b ''resumo_executivo''"
  using assms(1-3) pontos_chave_of_cong [OF assms(4)]
  by (simp add: local_analysis_nivel local_analysis_fields)

lemmas item_eval = text_lower_of_def dict_get_def trigger_keywords_def trigger_hits_def

text \<open>
  Claim C10 as amended, at two articles with the same title whose low-tier counts are 2
  and 0.
\<close>

theorem low_count_no_effect_witness:
  "keyword_count low_relevance_keywords
     (text_lower_of lower_ascii [''title'' \<mapsto> u ''Nova versao'', ''content'' \<mapsto> u ''bug fix'']) = 2 \<and>
   keyword_count low_relevance_keywords
     (text_lower_of lower_ascii [''title'' \<mapsto> u ''Nova versao'', ''content'' \<mapsto> u ''texto'']) = 0 \<and>
   local_analysis lower_ascii [''title'' \<mapsto> u ''Nova versao'', ''content'' \<mapsto> u ''bug fix''] ''nivel_relevancia'' =
   local_analysis lower_ascii [''title'' \<mapsto> u ''Nova versao'', ''content'' \<mapsto> u ''texto''] ''nivel_relevancia'' \<and>
   local_analysis lower_ascii [''title'' \<mapsto> u ''Nova versao'', ''content'' \<mapsto> u ''bug fix''] ''pontos_chave'' =
   local_analysis lower_ascii [''title'' \<mapsto> u ''Nova versao'', ''content'' \<mapsto> u ''texto''] ''pontos_chave'' \<and>
   local_analysis lower_ascii [''title'' \<mapsto> u ''Nova versao'', ''content'' \<mapsto> u ''bug fix''] ''resumo_executivo'' =
   local_analysis lower_ascii [''title'' \<mapsto> u ''Nova versao'', ''content'' \<mapsto> u ''texto''] ''resumo_executivo''"
proof -
  let ?a = "[''title'' \<mapsto> u ''Nova versao'', ''content'' \<mapsto> u ''bug fix'']"
  let ?b = "[''title'' \<mapsto> u ''Nova versao'', ''content'' \<mapsto> u ''texto'']"
  have ta: "text_lower_of lower_ascii ?a = u ''nova versao bug fix''"
    by (simp add: item_eval str_eval)
  have tb: "text_lower_of lower_ascii ?b = u ''nova versao texto''"
    by (simp add: item_eval str_eval)
  have t: "dict_get ?a ''title'' (u ''N/A'') = dict_get ?b ''title'' (u ''N/A'')"
    by (simp add: dict_get_def)
  have h: "keyword_count high_relevance_keywords (text_lower_of lower_ascii ?a) =
           keyword_count high_relevance_keywords (text_lower_of lower_ascii ?b)"
    unfolding ta tb by (simp add: count_eval str_eval)
  have m: "keyword_count medium_relevance_keywords (text_lower_of lower_ascii ?a) =
           keyword_count medium_relevance_keywords (text_lower_of lower_ascii ?b)"
    unfolding ta tb by (simp add: count_eval str_eval)
  have k: "\<forall>k \<in> set trigger_keywords.
             py_in k (text_lower_of lower_ascii ?a) = py_in k (text_lower_of lower_ascii ?b)"
    unfolding ta tb by (simp add: trigger_keywords_def str_eval)
  have la: "keyword_count low_relevance_keywords (text_lower_of lower_ascii ?a) = 2"
    unfolding ta by (simp add: count_eval str_eval)
  have lb: "keyword_count low_relevance_keywords (text_lower_of lower_ascii ?b) = 0"
    unfolding tb by (simp add: count_eval str_eval)
  from low_count_no_effect [OF t h m k] la lb show ?thesis by simp
qed

text \<open>
  Claim C10 as stated fails: the articles titled \<^verbatim>\<open>patch\<close> and \<^verbatim>\<open>nota\<close> agree on the
  high-tier count, on the medium-tier count and on every trigger keyword and differ in
  the low-tier count, and their executive summaries differ, because the summary quotes
  the title.
\<close>

theorem title_changes_summary:
  "keyword_count high_relevance_keywords (text_lower_of lower_ascii [''title'' \<mapsto> u ''patch'', ''content'' \<mapsto> u ''x'']) =
   keyword_count high_relevance_keywords (text_lower_of lower_ascii [''title'' \<mapsto> u ''nota'', ''content'' \<mapsto> u ''x'']) \<and>
   keyword_count medium_relevance_keywords (text_lower_of lower_ascii [''title'' \<mapsto> u ''patch'', ''content'' \<mapsto> u ''x'']) =
   keyword_count medium_relevance_keywords (text_lower_of lower_ascii [''title'' \<mapsto> u ''nota'', ''content'' \<mapsto> u ''x'']) \<and>
   trigger_hits (text_lower_of lower_ascii [''title'' \<mapsto> u ''patch'', ''content'' \<mapsto> u ''x'']) =
   trigger_hits (text_lower_of lower_ascii [''title'' \<mapsto> u ''nota'', ''content'' \<mapsto> u ''x'']) \<and>
   keyword_count low_relevance_keywords (text_lower_of lower_ascii [''title'' \<mapsto> u ''patch'', ''content'' \<mapsto> u ''x'']) \<noteq>
   keyword_count low_relevance_keywords (text_lower_of lower_ascii [''title'' \<mapsto> u ''nota'', ''content'' \<mapsto> u ''x'']) \<and>
   local_analysis lower_ascii [''title'' \<mapsto> u ''patch'', ''content'' \<mapsto> u ''x''] ''resumo_executivo'' \<noteq>
   local_analysis lower_ascii [''title'' \<mapsto> u ''nota'', ''content'' \<mapsto> u ''x''] ''resumo_executivo''"
proof -
  let ?a = "[''title'' \<mapsto> u ''patch'', ''content'' \<mapsto> u ''x'']"
  let ?b = "[''title'' \<mapsto> u ''nota'', ''content'' \<mapsto> u ''x'']"
  have ta: "text_lower_of lower_ascii ?a = u ''patch x''"
    by (simp add: item_eval str_eval)
  have tb: "text_lower_of lower_ascii ?b = u ''nota x''"
    by (simp add: item_eval str_eval)
  have h: "keyword_count high_relevance_keywords (u ''patch x'') = 0"
    "keyword_count high_relevance_keywords (u ''nota x'') = 0"
    by (simp_all add: count_eval str_eval)
  have m: "keyword_count medium_relevance_keywords (u ''patch x'') = 0"
    "keyword_count medium_relevance_keywords (u ''nota x'') = 0"
    by (simp_all add: count_eval str_eval)
  have l: "keyword_count low_relevance_keywords (u ''patch x'') = 1"
    "keyword_count low_relevance_keywords (u ''nota x'') = 0"
    by (simp_all add: count_eval str_eval)
  have k: "trigger_hits (u ''patch x'') = trigger_hits (u ''nota x'')"
    by (simp add: trigger_hits_def trigger_keywords_def str_eval)
  have r: "resumo_of (u ''patch'') 0 0 \<noteq> resumo_of (u ''nota'') 0 0"
    by (simp add: resumo_of_def u_def)
  show ?thesis
    unfolding local_analysis_fields ta tb h m l
    using k r by (simp add: dict_get_def)
qed

section \<open>Properties of the prompt builder\<close>

lemma requested_tail:
  "requested_sections prompt_tail = [u ''RESUMO EXECUTIVO'', u ''PONTOS-CHAVE'', nivel_acento]"
  by (simp add: requested_sections_def prompt_tail_def nivel_acento_def u_def startswith_def)

lemma requested_head: "requested_sections prompt_head = []"
  by (simp add: requested_sections_def prompt_head_def u_def startswith_def)

lemma requested_mid: "requested_sections prompt_mid = []"
  by (simp add: requested_sections_def prompt_mid_def u_def startswith_def)

text \<open>
  Claim C8, as the code has it. The prompt is a function of the article alone: the fixed
  head, the title, the fixed middle, the content, the fixed tail. The title is replaced by
  \<^verbatim>\<open>N/A\<close> when the article has none; the content is the field \<^verbatim>\<open>content\<close> whenever
  the article has that field (empty or not), the summary when it has no such field, and
  \<^verbatim>\<open>N/A\<close> when it has neither. The fixed pieces ask for exactly the three headed
  sections RESUMO EXECUTIVO, PONTOS-CHAVE and the accented NIVEL DE RELEVANCIA, in that
  order.
\<close>

theorem prompt_layout:
  "create_analysis_prompt news_item =
     prompt_head @
     (case news_item ''title'' of None \<Rightarrow> u ''N/A'' | Some title \<Rightarrow> title) @
     prompt_mid @
     (case news_item ''content'' of
        Some content \<Rightarrow> content
      | None \<Rightarrow> (case news_item ''summary'' of None \<Rightarrow> u ''N/A'' | Some summary \<Rightarrow> summary)) @
     prompt_tail \<and>
   requested_sections prompt_head = [] \<and>
   requested_sections prompt_mid = [] \<and>
   requested_sections prompt_tail = [u ''RESUMO EXECUTIVO'', u ''PONTOS-CHAVE'', nivel_acento]"
  by (simp add: create_analysis_prompt_def dict_get_def requested_tail requested_head requested_mid
      split: option.split)

text \<open>
  Claim C8 as stated fails: for an article whose content is the empty string and whose
  summary is not, the prompt embeds the empty content, and the summary occurs nowhere
  in it.
\<close>

theorem empty_content_embedded:
  "[''title'' \<mapsto> u ''Titulo'', ''content'' \<mapsto> [], ''summary'' \<mapsto> u ''resumo do artigo''] ''content'' = Some [] \<and>
   create_analysis_prompt
     [''title'' \<mapsto> u ''Titulo'', ''content'' \<mapsto> [], ''summary'' \<mapsto> u ''resumo do artigo''] =
     prompt_head @ u ''Titulo'' @ prompt_mid @ prompt_tail \<and>
   \<not> py_in (u ''resumo do artigo'')
     (create_analysis_prompt
        [''title'' \<mapsto> u ''Titulo'', ''content'' \<mapsto> [], ''summary'' \<mapsto> u ''resumo do artigo''])"
  by (simp add: create_analysis_prompt_def dict_get_def prompt_head_def prompt_mid_def
      prompt_tail_def u_def)

section \<open>Properties of the translation step\<close>

lemmas lang_eval = is_portuguese_def portuguese_words_def py_split_def

text \<open>
  Claim C6, as the code has it. When the title and the summary each pass the language
  test (at least two tokens among the function words, or fewer than five tokens), the
  translation step returns the article unchanged and adds no event, so it issues no
  generation call, whatever the providers are.
\<close>

theorem translation_skipped:
  assumes "is_portuguese lower (dict_get news_item ''title'' [])"
    and "is_portuguese lower (dict_get news_item ''summary'' (dict_get news_item ''content'' []))"
  shows "translate_news_item_simple lower w available_providers trace news_item = (news_item, trace)"
  using assms by (simp add: translate_news_item_simple_def)

text \<open>Claim C6 as amended, at an article with a Portuguese title and a summary of three tokens.\<close>

theorem translation_skipped_witness:
  "translate_news_item_simple lower_ascii
     (constant_world (ChatContent (Some (u ''texto''))) (PostRaises (Exn ''Timeout'' [])))
     [example_hosted (u ''groq'')] []
     [''title'' \<mapsto> u ''Relatorio de IA para o mercado'', ''summary'' \<mapsto> u ''IA no Brasil''] =
   ([''title'' \<mapsto> u ''Relatorio de IA para o mercado'', ''summary'' \<mapsto> u ''IA no Brasil''], [])"
proof -
  have t: "is_portuguese lower_ascii
     (dict_get [''title'' \<mapsto> u ''Relatorio de IA para o mercado'', ''summary'' \<mapsto> u ''IA no Brasil'']
        ''title'' [])"
    by (simp add: dict_get_def lang_eval str_eval)
  have s: "is_portuguese lower_ascii
     (dict_get [''title'' \<mapsto> u ''Relatorio de IA para o mercado'', ''summary'' \<mapsto> u ''IA no Brasil'']
        ''summary''
        (dict_get [''title'' \<mapsto> u ''Relatorio de IA para o mercado'', ''summary'' \<mapsto> u ''IA no Brasil'']
           ''content'' []))"
    by (simp add: dict_get_def lang_eval str_eval)
  from translation_skipped [OF t s] show ?thesis .
qed

text \<open>
  Claim C6 as stated fails: the title has two function words, so the title and the summary
  combined (with or without a space between them) pass the test, but the summary alone
  has seven tokens and no function word, and the step issues a generation call.
\<close>

theorem combined_text_translated:
  "is_portuguese lower_ascii
     (u ''Relatorio de IA para o mercado'' @ u '' '' @ u ''OpenAI releases a new reasoning model today'') \<and>
   is_portuguese lower_ascii
     (u ''Relatorio de IA para o mercado'' @ u ''OpenAI releases a new reasoning model today'') \<and>
   generation_calls (snd (translate_news_item_simple lower_ascii
     (constant_world (ChatRaises (Exn ''APIError'' (u ''503''))) (PostRaises (Exn ''Timeout'' [])))
     [example_hosted (u ''groq'')] []
     [''title'' \<mapsto> u ''Relatorio de IA para o mercado'',
      ''summary'' \<mapsto> u ''OpenAI releases a new reasoning model today''])) = 1"
proof -
  have a: "is_portuguese lower_ascii
     (u ''Relatorio de IA para o mercado'' @ u '' '' @ u ''OpenAI releases a new reasoning model today'')"
    by (simp add: lang_eval str_eval)
  have b: "is_portuguese lower_ascii
     (u ''Relatorio de IA para o mercado'' @ u ''OpenAI releases a new reasoning model today'')"
    by (simp add: lang_eval str_eval)
  have c: "\<not> is_portuguese lower_ascii (u ''OpenAI releases a new reasoning model today'')"
    by (simp add: lang_eval str_eval)
  have d: "generation_calls (snd (translate_news_item_simple lower_ascii
     (constant_world (ChatRaises (Exn ''APIError'' (u ''503''))) (PostRaises (Exn ''Timeout'' [])))
     [example_hosted (u ''groq'')] []
     [''title'' \<mapsto> u ''Relatorio de IA para o mercado'',
      ''summary'' \<mapsto> u ''OpenAI releases a new reasoning model today''])) = 1"
    using c by (simp add: translate_news_item_simple_def dict_get_def constant_world_def
        example_hosted_def Let_def)
  from a b d show ?thesis by simp
qed

lemma label_heads:
  "startswith line titulo_traduzido_label \<Longrightarrow> \<not> startswith line resumo_traduzido_label"
  by (cases line)
     (auto simp: startswith_def titulo_traduzido_label_def resumo_traduzido_label_def u_def)

lemma scan_translation_eq:
  "scan_translation tt ts lines =
     (translated_field titulo_traduzido_label tt lines,
      translated_field resumo_traduzido_label ts lines)"
proof (induction lines arbitrary: tt ts)
  case Nil
  then show ?case by (simp add: translated_field_def)
next
  case (Cons line lines)
  show ?case
  proof (cases "startswith line titulo_traduzido_label")
    case True
    with label_heads [OF True] Cons.IH show ?thesis
      by (simp add: translated_field_def split: list.splits)
  next
    case False
    with Cons.IH show ?thesis
      by (simp add: translated_field_def split: list.splits)
  qed
qed

lemma translated_field_filter:
  assumes "\<And>line. startswith line label \<Longrightarrow> Q line"
  shows "translated_field label original (filter Q lines) = translated_field label original lines"
proof -
  have "filter (\<lambda>line. startswith line label) (filter Q lines) =
        filter (\<lambda>line. startswith line label) lines"
    using assms by (auto intro: filter_cong)
  then show ?thesis by (simp only: translated_field_def)
qed

text \<open>
  Claim C9. Let the article have a title and a summary that do not both pass the language
  test, and let the first available provider be OpenAI-compatible with a client, so that
  the step issues its generation call. If the call raises, the step returns the article
  unchanged, the call being its only event. If the call answers with a text, the step
  returns the article with title and summary replaced by what the lines of the answer
  give for the two labels: a field is its original value when no line starts with its
  label, and lines that start with neither label change nothing.
\<close>

theorem translation_parse:
  assumes "\<not> (is_portuguese lower title \<and> is_portuguese lower summary)"
    and "news_item ''title'' = Some title" and "news_item ''summary'' = Some summary"
    and "available_providers = provider # others"
    and "ptype provider = openai_compatible" and "client provider = Some c"
    and "request = \<lparr>via = c, chat_model = model (config provider),
           system_content = translator_persona,
           user_content = translation_prompt title summary,
           max_tokens = 1000, temperature = 0.3\<rparr>"
  shows "(\<forall>e. chat_create w trace request = ChatRaises e \<longrightarrow>
            translate_news_item_simple lower w available_providers trace news_item =
              (news_item, trace @ [Chat request])) \<and>
         (\<forall>answer. chat_create w trace request = ChatContent (Some answer) \<longrightarrow>
            translate_news_item_simple lower w available_providers trace news_item =
              (news_item
                 (''title'' \<mapsto> translated_field titulo_traduzido_label title (split_on 10 answer),
                  ''summary'' \<mapsto> translated_field resumo_traduzido_label summary (split_on 10 answer)),
               trace @ [Chat request]) \<and>
            ((\<forall>line \<in> set (split_on 10 answer). \<not> startswith line titulo_traduzido_label) \<longrightarrow>
               translated_field titulo_traduzido_label title (split_on 10 answer) = title) \<and>
            ((\<forall>line \<in> set (split_on 10 answer). \<not> startswith line resumo_traduzido_label) \<longrightarrow>
               translated_field resumo_traduzido_label summary (split_on 10 answer) = summary) \<and>
            translated_field titulo_traduzido_label title (split_on 10 answer) =
              translated_field titulo_traduzido_label title
                (filter (\<lambda>line. startswith line titulo_traduzido_label \<or>
                                 startswith line resumo_traduzido_label) (split_on 10 answer)) \<and>
            translated_field resumo_traduzido_label summary (split_on 10 answer) =
              translated_field resumo_traduzido_label summary
                (filter (\<lambda>line. startswith line titulo_traduzido_label \<or>
                                 startswith line resumo_traduzido_label) (split_on 10 answer)))"
proof -
  have keep: "\<And>label original lines.
      \<forall>line \<in> set lines. \<not> startswith line label \<Longrightarrow> translated_field label original lines = original"
    by (simp add: translated_field_def filter_False)
  have raises: "\<forall>e. chat_create w trace request = ChatRaises e \<longrightarrow>
            translate_news_item_simple lower w available_providers trace news_item =
              (news_item, trace @ [Chat request])"
    using assms by (auto simp: translate_news_item_simple_def dict_get_def Let_def)
  have answers: "\<forall>answer. chat_create w trace request = ChatContent (Some answer) \<longrightarrow>
            translate_news_item_simple lower w available_providers trace news_item =
              (news_item
                 (''title'' \<mapsto> translated_field titulo_traduzido_label title (split_on 10 answer),
                  ''summary'' \<mapsto> translated_field resumo_traduzido_label summary (split_on 10 answer)),
               trace @ [Chat request])"
    using assms
    by (auto simp: translate_news_item_simple_def dict_get_def Let_def scan_translation_eq)
  show ?thesis
    using raises answers keep
      translated_field_filter [of titulo_traduzido_label
        "\<lambda>line. startswith line titulo_traduzido_label \<or> startswith line resumo_traduzido_label"]
      translated_field_filter [of resumo_traduzido_label
        "\<lambda>line. startswith line titulo_traduzido_label \<or> startswith line resumo_traduzido_label"]
    by simp
qed

text \<open>
  Claim C9 at an English article: with a call that raises the article comes back
  unchanged; with an answer of three lines, of which the second carries the title label,
  the title is translated and the summary is kept.
\<close>

theorem translation_parse_witness:
  "fst (translate_news_item_simple lower_ascii
     (constant_world (ChatRaises (Exn ''APIError'' (u ''503''))) (PostRaises (Exn ''Timeout'' [])))
     [example_hosted (u ''groq'')] []
     [''title'' \<mapsto> u ''OpenAI releases a new reasoning model today'',
      ''summary'' \<mapsto> u ''The new model is faster and cheaper'']) =
     [''title'' \<mapsto> u ''OpenAI releases a new reasoning model today'',
      ''summary'' \<mapsto> u ''The new model is faster and cheaper''] \<and>
   fst (translate_news_item_simple lower_ascii
     (constant_world
        (ChatContent (Some (u ''Segue:'' @ [10] @ titulo_traduzido_label @ u '' Novo modelo '' @ [10] @ u ''Fim'')))
        (PostRaises (Exn ''Timeout'' [])))
     [example_hosted (u ''groq'')] []
     [''title'' \<mapsto> u ''OpenAI releases a new reasoning model today'',
      ''summary'' \<mapsto> u ''The new model is faster and cheaper'']) =
     [''title'' \<mapsto> u ''OpenAI releases a new reasoning model today'',
      ''summary'' \<mapsto> u ''The new model is faster and cheaper'']
     (''title'' \<mapsto> u ''Novo modelo'', ''summary'' \<mapsto> u ''The new model is faster and cheaper'')"
proof -
  let ?item = "[''title'' \<mapsto> u ''OpenAI releases a new reasoning model today'',
      ''summary'' \<mapsto> u ''The new model is faster and cheaper'']"
  let ?answer = "u ''Segue:'' @ [10] @ titulo_traduzido_label @ u '' Novo modelo '' @ [10] @ u ''Fim''"
  let ?w1 = "constant_world (ChatRaises (Exn ''APIError'' (u ''503''))) (PostRaises (Exn ''Timeout'' []))"
  let ?w2 = "constant_world (ChatContent (Some ?answer)) (PostRaises (Exn ''Timeout'' []))"
  let ?c = "OpenAIClient (u ''key'') (u ''https://api.example/v1'')"
  let ?request = "\<lparr>via = ?c, chat_model = model (config (example_hosted (u ''groq''))),
           system_content = translator_persona,
           user_content = translation_prompt (u ''OpenAI releases a new reasoning model today'')
              (u ''The new model is faster and cheaper''),
           max_tokens = 1000, temperature = 0.3\<rparr>"
  have np: "\<not> (is_portuguese lower_ascii (u ''OpenAI releases a new reasoning model today'') \<and>
              is_portuguese lower_ascii (u ''The new model is faster and cheaper''))"
    by (simp add: lang_eval str_eval)
  have t: "?item ''title'' = Some (u ''OpenAI releases a new reasoning model today'')" by simp
  have s: "?item ''summary'' = Some (u ''The new model is faster and cheaper'')" by simp
  have p: "ptype (example_hosted (u ''groq'')) = openai_compatible" by (simp add: example_hosted_def)
  have c: "client (example_hosted (u ''groq'')) = Some ?c" by (simp add: example_hosted_def)
  have r1: "chat_create ?w1 [] ?request = ChatRaises (Exn ''APIError'' (u ''503''))"
    by (simp add: constant_world_def)
  have r2: "chat_create ?w2 [] ?request = ChatContent (Some ?answer)"
    by (simp add: constant_world_def)
  have lines: "split_on 10 ?answer =
      [u ''Segue:'', titulo_traduzido_label @ u '' Novo modelo '', u ''Fim'']"
    by (simp add: titulo_traduzido_label_def u_def)
  have ft: "translated_field titulo_traduzido_label (u ''OpenAI releases a new reasoning model today'')
      [u ''Segue:'', titulo_traduzido_label @ u '' Novo modelo '', u ''Fim''] = u ''Novo modelo''"
    by (simp add: translated_field_def titulo_traduzido_label_def str_eval)
  have fs: "translated_field resumo_traduzido_label (u ''The new model is faster and cheaper'')
      [u ''Segue:'', titulo_traduzido_label @ u '' Novo modelo '', u ''Fim''] =
      u ''The new model is faster and cheaper''"
    by (simp add: translated_field_def titulo_traduzido_label_def resumo_traduzido_label_def str_eval)
  have av: "[example_hosted (u ''groq'')] = example_hosted (u ''groq'') # []" by simp
  from translation_parse [OF np t s av p c refl, of ?w1 "[]"] r1
  have "translate_news_item_simple lower_ascii ?w1 [example_hosted (u ''groq'')] [] ?item =
      (?item, [] @ [Chat ?request])"
    by blast
  then have a: "fst (translate_news_item_simple lower_ascii ?w1 [example_hosted (u ''groq'')] [] ?item) = ?item"
    by (simp only: fst_conv)
  from translation_parse [OF np t s av p c refl, of ?w2 "[]"] r2
  have "translate_news_item_simple lower_ascii ?w2 [example_hosted (u ''groq'')] [] ?item =
      (?item(''title'' \<mapsto> translated_field titulo_traduzido_label
                 (u ''OpenAI releases a new reasoning model today'') (split_on 10 ?answer),
             ''summary'' \<mapsto> translated_field resumo_traduzido_label
                 (u ''The new model is faster and cheaper'') (split_on 10 ?answer)),
       [] @ [Chat ?request])"
    by blast
  then have b: "fst (translate_news_item_simple lower_ascii ?w2 [example_hosted (u ''groq'')] [] ?item) =
      ?item(''title'' \<mapsto> u ''Novo modelo'', ''summary'' \<mapsto> u ''The new model is faster and cheaper'')"
    unfolding lines ft fs by (simp only: fst_conv)
  from a b show ?thesis by (rule conjI)
qed

section \<open>Properties of the health check\<close>

lemma check_ollama_iff:
  "check_ollama_availability env requests_get \<longleftrightarrow>
     (\<exists>models. requests_get (health_url env) 5 = GetResponse 200 (TagsDict (Some models)) \<and>
               models \<noteq> [])"
  by (auto simp: check_ollama_availability_def check_ollama_try_def Let_def
      split: get_reply.splits tags_body.splits option.splits if_splits)

lemma sorted_providers:
  "sort_key (\<lambda>x. priority (snd x)) (providers env) = providers env"
  by (simp add: providers_def)

lemma setup_one_names:
  "name ` set (setup_one env requests_get OpenAI n cfg available) \<subseteq>
     name ` set available \<union> {n}"
  by (auto simp: setup_one_def split: option.splits sum.splits if_splits)

lemma setup_one_ollama_down:
  "\<not> check_ollama_availability env requests_get \<Longrightarrow>
   setup_one env requests_get OpenAI (u ''ollama'') cfg available = available"
  by (simp add: setup_one_def)

lemma setup_loop_names:
  "name ` set (setup_loop env requests_get OpenAI items available) \<subseteq>
     name ` set available \<union> fst ` set items"
proof (induction items arbitrary: available)
  case Nil
  then show ?case by simp
next
  case (Cons item items)
  from Cons.IH [of "setup_one env requests_get OpenAI (fst item) (snd item) available"]
    setup_one_names [of env requests_get OpenAI "fst item" "snd item" available]
  show ?case by auto
qed

lemma other_names:
  "u ''ollama'' \<notin> fst ` set (tl (providers env))"
  by (simp add: providers_def u_def)

text \<open>
  Claim C7. The health check is true exactly when the probe of the model-listing address
  answers with status 200 and a body that lists at least one model; a probe that raises,
  another status, a body that cannot be read and an empty or missing list all give false,
  and the check returns in every case. When the probe answers 200 with an empty list, no
  provider named \<^verbatim>\<open>ollama\<close> is in the list that \<^verbatim>\<open>_setup_providers\<close> builds.
\<close>

theorem health_check_gate:
  "(check_ollama_availability env requests_get \<longleftrightarrow>
      (\<exists>models. requests_get (health_url env) 5 = GetResponse 200 (TagsDict (Some models)) \<and>
                models \<noteq> [])) \<and>
   (requests_get (health_url env) 5 = GetResponse 200 (TagsDict (Some [])) \<longrightarrow>
      u ''ollama'' \<notin> name ` set (setup_providers env requests_get OpenAI))"
proof -
  have "u ''ollama'' \<notin> name ` set (setup_providers env requests_get OpenAI)"
    if down: "\<not> check_ollama_availability env requests_get"
  proof -
    have p: "providers env = hd (providers env) # tl (providers env)"
      "fst (hd (providers env)) = u ''ollama''"
      by (simp_all add: providers_def)
    have "setup_providers env requests_get OpenAI =
        setup_loop env requests_get OpenAI (tl (providers env)) []"
      unfolding setup_providers_def sorted_providers
      by (subst p(1)) (simp add: p(2) setup_one_ollama_down [OF down])
    with setup_loop_names [of env requests_get OpenAI "tl (providers env)" "[]"] other_names [of env]
    show ?thesis by auto
  qed
  then show ?thesis by (auto simp: check_ollama_iff)
qed

text \<open>
  Claim C7 at a probe that answers 200 with an empty list of models (the check is false
  and the local backend is not set up) and at one that lists a model (the check is true).
\<close>

theorem health_check_gate_witness:
  "\<not> check_ollama_availability Map.empty (example_probe (GetResponse 200 (TagsDict (Some [])))) \<and>
   u ''ollama'' \<notin> name ` set (setup_providers Map.empty
      (example_probe (GetResponse 200 (TagsDict (Some [])))) (Some new_client)) \<and>
   check_ollama_availability Map.empty
      (example_probe (GetResponse 200 (TagsDict (Some [u ''llama3:latest'']))))"
proof -
  have a: "example_probe (GetResponse 200 (TagsDict (Some []))) (health_url Map.empty) 5 =
      GetResponse 200 (TagsDict (Some []))"
    by (simp add: example_probe_def)
  have b: "example_probe (GetResponse 200 (TagsDict (Some [u ''llama3:latest'']))) (health_url Map.empty) 5 =
      GetResponse 200 (TagsDict (Some [u ''llama3:latest'']))"
    by (simp add: example_probe_def)
  from health_check_gate [of Map.empty "example_probe (GetResponse 200 (TagsDict (Some [])))" "Some new_client"]
    health_check_gate [of Map.empty "example_probe (GetResponse 200 (TagsDict (Some [u ''llama3:latest''])))" "Some new_client"]
    a b
  show ?thesis by simp
qed

section \<open>Properties of the orchestrator\<close>

lemma local_analysis_keys: "section_keys \<subseteq> dom (local_analysis lower news_item)"
  by (simp add: local_analysis_def Let_def section_keys_def)

lemma local_analysis_method: "local_analysis lower news_item ''metodo_analise'' = Some (u ''local'')"
  by (simp add: local_analysis_def Let_def)

lemma openai_result:
  assumes "analyze_with_openai_compatible lower upper w available trace news_item provider = (Inr d, t)"
  shows "section_keys \<subseteq> dom d" and "d ''provedor_usado'' = Some (name provider)"
proof -
  obtain ti t1 where tr: "(if name provider \<noteq> u ''ollama''
            then translate_news_item_simple lower w available trace news_item
            else (news_item, trace)) = (ti, t1)"
    by (cases "if name provider \<noteq> u ''ollama''
            then translate_news_item_simple lower w available trace news_item
            else (news_item, trace)") blast
  from assms obtain parsed answer where
    p: "parse_analysis_response upper answer = Inr parsed" and
    d: "d = parsed(''titulo_traduzido'' \<mapsto> dict_get ti ''title'' (dict_get news_item ''title'' []),
                   ''resumo_traduzido'' \<mapsto> dict_get ti ''summary'' (dict_get news_item ''summary'' []),
                   ''provedor_usado'' \<mapsto> name provider)"
    unfolding analyze_with_openai_compatible_def tr
    by (auto simp: Let_def split: option.splits chat_reply.splits sum.splits)
  from parse_returns [of upper answer] p have "dom parsed = section_keys" by auto
  with d show "section_keys \<subseteq> dom d" by auto
  from d show "d ''provedor_usado'' = Some (name provider)" by simp
qed

lemma huggingface_result:
  assumes "analyze_with_huggingface w trace news_item provider = (Inr (Some d), t)"
  shows "section_keys \<subseteq> dom d" and "d ''provedor_usado'' = None"
  using assms
  by (auto simp: analyze_with_huggingface_def Let_def section_keys_def
      split: hf_reply.splits hf_body.splits list.splits hf_item.splits if_splits)

lemma attempt_keys:
  assumes "attempt lower upper w available news_item provider trace = (Inr (Some d), t)"
  shows "section_keys \<subseteq> dom d"
proof (cases "ptype provider = huggingface")
  case True
  with assms huggingface_result(1) show ?thesis by (simp add: attempt_def)
next
  case False
  with assms obtain r where
    "analyze_with_openai_compatible lower upper w available trace news_item provider = (r, t)"
    "map_sum id Some r = Inr (Some d)"
    by (auto simp: attempt_def split: prod.splits)
  then have "analyze_with_openai_compatible lower upper w available trace news_item provider = (Inr d, t)"
    by (cases r) auto
  then show ?thesis by (rule openai_result(1))
qed

lemma try_providers_step:
  "try_providers lower upper w available news_item i (provider # rest) trace =
     (let r = attempt lower upper w available news_item provider (trace @ [Try i (name provider)])
      in if attempt_fails (fst r)
         then try_providers lower upper w available news_item (Suc i) rest (snd r)
         else (the (projr (fst r)), snd r))"
  by (auto simp: Let_def attempt_fails_def split: prod.splits sum.splits option.splits)

lemma try_providers_keys:
  "section_keys \<subseteq> dom (fst (try_providers lower upper w available news_item i ps trace))"
proof (induction ps arbitrary: i trace)
  case Nil
  then show ?case by (simp add: local_analysis_keys)
next
  case (Cons provider rest)
  obtain r t where a: "attempt lower upper w available news_item provider
      (trace @ [Try i (name provider)]) = (r, t)"
    by (cases "attempt lower upper w available news_item provider (trace @ [Try i (name provider)])")
  show ?case
  proof (cases "attempt_fails r")
    case True
    with a Cons.IH show ?thesis by (simp add: try_providers_step del: try_providers.simps)
  next
    case False
    then obtain d where r: "r = Inr (Some d)"
      by (auto simp: attempt_fails_def split: sum.splits option.splits)
    from attempt_keys [OF a [unfolded r]] a False r show ?thesis
      by (simp add: try_providers_step del: try_providers.simps)
  qed
qed

lemma try_providers_exhausted:
  "every_provider_fails lower upper w available news_item i ps trace \<Longrightarrow>
   fst (try_providers lower upper w available news_item i ps trace) = local_analysis lower news_item"
proof (induction ps arbitrary: i trace)
  case Nil
  then show ?case by simp
next
  case (Cons provider rest)
  then show ?case by (simp add: try_providers_step del: try_providers.simps)
qed

text \<open>
  Claim C1. \<^verbatim>\<open>analyze_news\<close> returns for every article, world, provider list and
  setting of the enabling flag: every exception of an attempt is a value that the loop
  handles. The returned dictionary has the keys \<^verbatim>\<open>resumo_executivo\<close>,
  \<^verbatim>\<open>pontos_chave\<close> and \<^verbatim>\<open>nivel_relevancia\<close>. When the list of available providers
  is empty or every provider fails, the result is the output of the local analyzer, and
  its entry \<^verbatim>\<open>metodo_analise\<close> is \<^verbatim>\<open>local\<close>.
\<close>

theorem analyze_news_total:
  "{''resumo_executivo'', ''pontos_chave'', ''nivel_relevancia''} \<subseteq>
     dom (fst (analyze_news lower upper w enabled available trace news_item)) \<and>
   (available = [] \<or> every_provider_fails lower upper w available news_item 0 available trace \<longrightarrow>
      fst (analyze_news lower upper w enabled available trace news_item) =
        local_analysis lower news_item \<and>
      fst (analyze_news lower upper w enabled available trace news_item) ''metodo_analise'' =
        Some (u ''local''))"
proof -
  have keys: "section_keys \<subseteq> dom (fst (analyze_news lower upper w enabled available trace news_item))"
    by (simp add: analyze_news_def local_analysis_keys try_providers_keys)
  have ex: "fst (analyze_news lower upper w enabled available trace news_item) =
        local_analysis lower news_item"
    if "available = [] \<or> every_provider_fails lower upper w available news_item 0 available trace"
  proof -
    from that have "every_provider_fails lower upper w available news_item 0 available trace"
      by auto
    then show ?thesis by (simp add: analyze_news_def try_providers_exhausted)
  qed
  from keys ex show ?thesis
    by (auto simp: section_keys_def local_analysis_method)
qed

lemma attempts_append: "attempts (xs @ ys) = attempts xs @ attempts ys"
  by (induction xs rule: attempts.induct) simp_all

lemma generation_calls_append:
  "generation_calls (xs @ ys) = generation_calls xs + generation_calls ys"
  by (induction xs rule: generation_calls.induct) simp_all

lemma example_article_portuguese:
  "is_portuguese lower_ascii (dict_get example_article ''title'' [])"
  "is_portuguese lower_ascii (dict_get example_article ''summary'' (dict_get example_article ''content'' []))"
  by (simp_all add: example_article_def dict_get_def lang_eval str_eval)

lemma skip_translation:
  "is_portuguese lower (dict_get news_item ''title'' []) \<Longrightarrow>
   is_portuguese lower (dict_get news_item ''summary'' (dict_get news_item ''content'' [])) \<Longrightarrow>
   translate_news_item_simple lower w available trace news_item = (news_item, trace)"
  by (simp add: translate_news_item_simple_def)

lemma hosted_not_ollama:
  "u ''groq'' \<noteq> u ''ollama''"
  "u ''openrouter'' \<noteq> u ''ollama''"
  by (simp_all add: u_def)

lemma hosted_attempt_raises:
  assumes "n \<noteq> u ''ollama''"
  shows "fst (attempt lower_ascii upper (constant_world (ChatRaises e) h) available example_article
            (example_hosted n) trace) = Inl e \<and>
         attempts (snd (attempt lower_ascii upper (constant_world (ChatRaises e) h) available
            example_article (example_hosted n) trace)) = attempts trace \<and>
         generation_calls (snd (attempt lower_ascii upper (constant_world (ChatRaises e) h) available
            example_article (example_hosted n) trace)) = Suc (generation_calls trace)"
  using assms
  by (simp add: attempt_def analyze_with_openai_compatible_def
      skip_translation [OF example_article_portuguese]
      example_hosted_def constant_world_def Let_def attempts_append generation_calls_append)

text \<open>
  Claim C1 at an empty provider list, and at a list of one hosted provider whose call
  raises.
\<close>

theorem analyze_news_total_witness:
  "fst (analyze_news lower_ascii upper_ascii
     (constant_world (ChatRaises (Exn ''APIError'' (u ''503''))) (PostRaises (Exn ''Timeout'' [])))
     True [] [] example_article) ''metodo_analise'' = Some (u ''local'') \<and>
   fst (analyze_news lower_ascii upper_ascii
     (constant_world (ChatRaises (Exn ''APIError'' (u ''503''))) (PostRaises (Exn ''Timeout'' [])))
     True [example_hosted (u ''groq'')] [] example_article) =
     local_analysis lower_ascii example_article"
proof -
  let ?w = "constant_world (ChatRaises (Exn ''APIError'' (u ''503''))) (PostRaises (Exn ''Timeout'' []))"
  have f: "every_provider_fails lower_ascii upper_ascii ?w [example_hosted (u ''groq'')] example_article 0
      [example_hosted (u ''groq'')] []"
    using hosted_attempt_raises [OF hosted_not_ollama(1), of upper_ascii "Exn ''APIError'' (u ''503'')"
      "PostRaises (Exn ''Timeout'' [])" "[example_hosted (u ''groq'')]"]
    by (simp add: attempt_fails_def)
  from analyze_news_total [of lower_ascii upper_ascii ?w True "[]" "[]" example_article]
  have a: "fst (analyze_news lower_ascii upper_ascii ?w True [] [] example_article) ''metodo_analise'' =
      Some (u ''local'')"
    by blast
  from analyze_news_total [of lower_ascii upper_ascii ?w True "[example_hosted (u ''groq'')]" "[]" example_article] f
  have b: "fst (analyze_news lower_ascii upper_ascii ?w True [example_hosted (u ''groq'')] [] example_article) =
      local_analysis lower_ascii example_article"
    by blast
  from a b show ?thesis by (rule conjI)
qed

text \<open>
  The loop in general: an attempt adds no \<open>Try\<close> event of its own, and a successful
  attempt carries the name of its provider under \<^verbatim>\<open>provedor_usado\<close> exactly when the
  provider is not of the Hugging Face type. So in a chain that starts with \<open>A\<close>,
  \<open>B\<close>, \<open>C\<close>, where the attempts with \<open>A\<close> and \<open>B\<close> fail and the one with \<open>C\<close>
  succeeds, the result is the one of \<open>C\<close>, each of the three is attempted once, in
  order, and no later provider is attempted.
\<close>

lemma translate_attempts:
  "attempts (snd (translate_news_item_simple lower w available trace news_item)) = attempts trace"
  by (auto simp: translate_news_item_simple_def Let_def attempts_append
      split: list.splits option.splits chat_reply.splits prod.splits)

lemma openai_attempts:
  "attempts (snd (analyze_with_openai_compatible lower upper w available trace news_item provider)) =
     attempts trace"
proof -
  obtain ti t1 where tr: "(if name provider \<noteq> u ''ollama''
            then translate_news_item_simple lower w available trace news_item
            else (news_item, trace)) = (ti, t1)"
    by (cases "if name provider \<noteq> u ''ollama''
            then translate_news_item_simple lower w available trace news_item
            else (news_item, trace)") blast
  have "attempts t1 = attempts trace"
    using tr translate_attempts [of lower w available trace news_item]
    by (auto split: if_splits)
  then show ?thesis
    unfolding analyze_with_openai_compatible_def tr
    by (auto simp: Let_def attempts_append split: option.splits chat_reply.splits sum.splits)
qed

lemma huggingface_attempts:
  "attempts (snd (analyze_with_huggingface w trace news_item provider)) = attempts trace"
  by (auto simp: analyze_with_huggingface_def Let_def attempts_append
      split: hf_reply.splits hf_body.splits list.splits hf_item.splits)

lemma attempt_attempts:
  "attempts (snd (attempt lower upper w available news_item provider trace)) = attempts trace"
  using openai_attempts [of lower upper w available trace news_item provider]
  by (auto simp: attempt_def huggingface_attempts split: prod.splits)

lemma attempt_marker:
  assumes "attempt lower upper w available news_item provider trace = (Inr (Some d), t)"
  shows "d ''provedor_usado'' = (if ptype provider = huggingface then None else Some (name provider))"
proof (cases "ptype provider = huggingface")
  case True
  with assms huggingface_result(2) show ?thesis by (simp add: attempt_def)
next
  case False
  with assms obtain r where
    "analyze_with_openai_compatible lower upper w available trace news_item provider = (r, t)"
    "map_sum id Some r = Inr (Some d)"
    by (auto simp: attempt_def split: prod.splits)
  then have "analyze_with_openai_compatible lower upper w available trace news_item provider = (Inr d, t)"
    by (cases r) auto
  from openai_result(2) [OF this] False show ?thesis by simp
qed

lemma fallback_order:
  assumes a: "attempt lower upper w available news_item A (trace @ [Try 0 (name A)]) = (ra, ta)"
    and fa: "attempt_fails ra"
    and b: "attempt lower upper w available news_item B (ta @ [Try 1 (name B)]) = (rb, tb)"
    and fb: "attempt_fails rb"
    and c: "attempt lower upper w available news_item C (tb @ [Try 2 (name C)]) = (Inr (Some d), tc)"
    and av: "available = A # B # C # rest"
  shows "analyze_news lower upper w True available trace news_item = (d, tc)"
    and "attempts tc = attempts trace @ [name A, name B, name C]"
    and "d ''provedor_usado'' = (if ptype C = huggingface then None else Some (name C))"
proof -
  from attempt_keys [OF c] have ne: "d \<noteq> Map.empty"
    by (auto simp: section_keys_def)
  have "try_providers lower upper w available news_item 0 (A # B # C # rest) trace = (d, tc)"
    using a fa b fb c ne
    by (simp add: try_providers_step Let_def attempt_fails_def numeral_2_eq_2
        del: try_providers.simps)
  then show "analyze_news lower upper w True available trace news_item = (d, tc)"
    by (simp add: analyze_news_def av)
  from attempt_attempts [of lower upper w available news_item A "trace @ [Try 0 (name A)]"] a
  have ta: "attempts ta = attempts trace @ [name A]" by (simp add: attempts_append)
  from attempt_attempts [of lower upper w available news_item B "ta @ [Try 1 (name B)]"] b
  have tb: "attempts tb = attempts ta @ [name B]" by (simp add: attempts_append)
  from attempt_attempts [of lower upper w available news_item C "tb @ [Try 2 (name C)]"] c
  have "attempts tc = attempts tb @ [name C]" by (simp add: attempts_append)
  with ta tb show "attempts tc = attempts trace @ [name A, name B, name C]" by simp
  from attempt_marker [OF c]
  show "d ''provedor_usado'' = (if ptype C = huggingface then None else Some (name C))" .
qed

lemma huggingface_attempt_answers:
  "fst (attempt lower upper (constant_world c (PostResponse 200 (HFList [HFItem (Some (u ''Resumo gerado''))])))
          available example_article example_huggingface trace) =
     Inr (Some
        [''resumo_executivo'' \<mapsto> u ''Resumo gerado'',
         ''pontos_chave'' \<mapsto>
            [8226] @ u '' An'' @ [225] @ u ''lise via Hugging Face'' @ [10, 8226]
            @ u '' Conte'' @ [250] @ u ''do processado automaticamente'' @ [10, 8226]
            @ u '' Relevante para IA e tecnologia'',
         ''nivel_relevancia'' \<mapsto>
            u ''M'' @ [233] @ u ''dio - An'' @ [225] @ u ''lise autom'' @ [225]
            @ u ''tica via Hugging Face'',
         ''titulo_traduzido'' \<mapsto> u ''Relatorio de IA para o mercado'',
         ''resumo_traduzido'' \<mapsto> u ''IA no Brasil'']) \<and>
   attempts (snd (attempt lower upper
          (constant_world c (PostResponse 200 (HFList [HFItem (Some (u ''Resumo gerado''))])))
          available example_article example_huggingface trace)) = attempts trace \<and>
   generation_calls (snd (attempt lower upper
          (constant_world c (PostResponse 200 (HFList [HFItem (Some (u ''Resumo gerado''))])))
          available example_article example_huggingface trace)) = Suc (generation_calls trace)"
  by (simp add: attempt_def analyze_with_huggingface_def example_huggingface_def
      constant_world_def Let_def attempts_append generation_calls_append
      example_article_def dict_get_def u_def)

text \<open>
  Claim C2 at the chain of two hosted providers, whose calls raise, and the Hugging Face
  provider, whose call answers 200 with a generated text. The three providers are
  attempted once each, in order, with one generation call each, and the result is the
  one built from the answer of the third; but it has no entry \<^verbatim>\<open>provedor_usado\<close>,
  where the claim expects the name of the third provider. The OpenAI-compatible path
  sets that entry; the Hugging Face path does not.
\<close>

theorem huggingface_result_unmarked:
  "fst (analyze_news lower_ascii upper_ascii
     (constant_world (ChatRaises (Exn ''APIError'' (u ''503'')))
        (PostResponse 200 (HFList [HFItem (Some (u ''Resumo gerado''))])))
     True
     [example_hosted (u ''openrouter''), example_hosted (u ''groq''), example_huggingface] []
     example_article) ''provedor_usado'' = None \<and>
   fst (analyze_news lower_ascii upper_ascii
     (constant_world (ChatRaises (Exn ''APIError'' (u ''503'')))
        (PostResponse 200 (HFList [HFItem (Some (u ''Resumo gerado''))])))
     True
     [example_hosted (u ''openrouter''), example_hosted (u ''groq''), example_huggingface] []
     example_article) ''resumo_executivo'' = Some (u ''Resumo gerado'') \<and>
   attempts (snd (analyze_news lower_ascii upper_ascii
     (constant_world (ChatRaises (Exn ''APIError'' (u ''503'')))
        (PostResponse 200 (HFList [HFItem (Some (u ''Resumo gerado''))])))
     True
     [example_hosted (u ''openrouter''), example_hosted (u ''groq''), example_huggingface] []
     example_article)) = [u ''openrouter'', u ''groq'', u ''huggingface''] \<and>
   generation_calls (snd (analyze_news lower_ascii upper_ascii
     (constant_world (ChatRaises (Exn ''APIError'' (u ''503'')))
        (PostResponse 200 (HFList [HFItem (Some (u ''Resumo gerado''))])))
     True
     [example_hosted (u ''openrouter''), example_hosted (u ''groq''), example_huggingface] []
     example_article)) = 3"
proof -
  let ?w = "constant_world (ChatRaises (Exn ''APIError'' (u ''503'')))
        (PostResponse 200 (HFList [HFItem (Some (u ''Resumo gerado''))]))"
  let ?av = "[example_hosted (u ''openrouter''), example_hosted (u ''groq''), example_huggingface]"
  note a = hosted_attempt_raises [OF hosted_not_ollama(2), of upper_ascii "Exn ''APIError'' (u ''503'')"
      "PostResponse 200 (HFList [HFItem (Some (u ''Resumo gerado''))])" ?av]
  note b = hosted_attempt_raises [OF hosted_not_ollama(1), of upper_ascii "Exn ''APIError'' (u ''503'')"
      "PostResponse 200 (HFList [HFItem (Some (u ''Resumo gerado''))])" ?av]
  note c = huggingface_attempt_answers [of lower_ascii upper_ascii "ChatRaises (Exn ''APIError'' (u ''503''))" ?av]
  have n: "name (example_hosted (u ''openrouter'')) = u ''openrouter''"
    "name (example_hosted (u ''groq'')) = u ''groq''"
    "name example_huggingface = u ''huggingface''"
    by (simp_all add: example_hosted_def example_huggingface_def)
  show ?thesis
    unfolding analyze_news_def
    by (simp add: try_providers_step Let_def a b c n attempt_fails_def attempts_append
        generation_calls_append del: try_providers.simps)
qed

end
